theory Spec2Isabelle
  imports Complex_Main "HOL-Library.Sublist"
begin

section \<open>Joy: shapes, transformations and the SVG renderer (src/joy.py)\<close>

subsection \<open>Python values\<close>

text \<open>
  Numbers are Python's \<open>int\<close> (unbounded) and \<open>float\<close>. A float is modelled by the
  rational number it denotes; rounding is not modelled, so the arithmetic below agrees
  with Python wherever the exact result is a double (as for \<open>360/4\<close> and \<open>k * 90.0\<close>).
\<close>

datatype num = PInt int | PFloat rat

text \<open>The scalar values an attribute can carry: \<open>None\<close>, a number or a string.\<close>

datatype pyval = PNone | PNum num | PStr string

datatype error = AttributeError string | TypeError string | ZeroDivisionError

fun num_val :: "num \<Rightarrow> rat" where
  "num_val (PInt i) = of_int i"
| "num_val (PFloat r) = r"

text \<open>Python's \<open>==\<close> on numbers compares the values: \<open>0 == 0.0\<close> is true.\<close>

definition num_eq :: "num \<Rightarrow> num \<Rightarrow> bool" where
  "num_eq a b = (num_val a = num_val b)"

text \<open>\<open>a * b\<close>: an int when both are ints, a float otherwise.\<close>

fun num_mul :: "num \<Rightarrow> num \<Rightarrow> num" where
  "num_mul (PInt a) (PInt b) = PInt (a * b)"
| "num_mul a b = PFloat (num_val a * num_val b)"

text \<open>\<open>a ** i\<close> for an index \<open>i \<ge> 0\<close> (from \<open>enumerate\<close>).\<close>

fun num_pow :: "num \<Rightarrow> nat \<Rightarrow> num" where
  "num_pow (PInt a) i = PInt (a ^ i)"
| "num_pow (PFloat a) i = PFloat (a ^ i)"

text \<open>\<open>a / b\<close> on ints is true division: a float, or \<open>ZeroDivisionError\<close>.\<close>

definition int_truediv :: "int \<Rightarrow> int \<Rightarrow> error + num" where
  "int_truediv a b = (if b = 0 then Inl ZeroDivisionError else Inr (PFloat (of_int a / of_int b)))"

subsection \<open>Text of values: \<open>str\<close>, \<open>html.escape\<close>, \<open>str.replace\<close>, \<open>str.join\<close>\<close>

definition digit_char :: "nat \<Rightarrow> char" where
  "digit_char d = ''0123456789'' ! d"

fun str_nat :: "nat \<Rightarrow> string" where
  "str_nat n = (if n < 10 then [digit_char n] else str_nat (n div 10) @ [digit_char (n mod 10)])"

declare str_nat.simps [simp del]

definition str_int :: "int \<Rightarrow> string" where
  "str_int i = (if i < 0 then CHR ''-'' # str_nat (nat (- i)) else str_nat (nat i))"

text \<open>
  \<open>str\<close> of a float is CPython's shortest round-trip \<open>repr\<close>, which is not code of this
  repository: it is the parameter \<open>fr\<close> of everything that formats a number.
\<close>

fun str_num :: "(rat \<Rightarrow> string) \<Rightarrow> num \<Rightarrow> string" where
  "str_num fr (PInt i) = str_int i"
| "str_num fr (PFloat r) = fr r"

text \<open>
  The formatter of the examples: Python's \<open>repr\<close> of a float whose value is an integer
  below \<open>10^16\<close> is its digits followed by \<open>.0\<close>. No example formats another float.
\<close>

definition repr_integral :: "rat \<Rightarrow> string" where
  "repr_integral r = str_int \<lfloor>r\<rfloor> @ ''.0''"

text \<open>\<open>str(v)\<close>; \<open>str(None)\<close> is the text \<open>None\<close>.\<close>

fun str_val :: "(rat \<Rightarrow> string) \<Rightarrow> pyval \<Rightarrow> string" where
  "str_val fr PNone = ''None''"
| "str_val fr (PNum n) = str_num fr n"
| "str_val fr (PStr s) = s"

text \<open>\<open>html.escape(s)\<close> with its default \<open>quote=True\<close>.\<close>

fun escape_char :: "char \<Rightarrow> string" where
  "escape_char c =
     (if c = CHR ''&'' then ''&amp;''
      else if c = CHR ''<'' then ''&lt;''
      else if c = CHR ''>'' then ''&gt;''
      else if c = CHR 0x22 then ''&quot;''
      else if c = CHR 0x27 then ''&#x27;''
      else [c])"

definition html_escape :: "string \<Rightarrow> string" where
  "html_escape s = concat (map escape_char s)"

text \<open>\<open>k.replace("_", "-")\<close>.\<close>

definition replace_underscore :: "string \<Rightarrow> string" where
  "replace_underscore k = map (\<lambda>c. if c = CHR ''_'' then CHR ''-'' else c) k"

text \<open>\<open>sep.join(xs)\<close>.\<close>

fun join_str :: "string \<Rightarrow> string list \<Rightarrow> string" where
  "join_str sep [] = []"
| "join_str sep [x] = x"
| "join_str sep (x # y # ys) = x @ sep @ join_str sep (y # ys)"

subsection \<open>Point\<close>

datatype point = Point (px: num) (py: num)

text \<open>\<open>Point.__eq__\<close>, on two points.\<close>

definition point_eq :: "point \<Rightarrow> point \<Rightarrow> bool" where
  "point_eq self p = (num_eq (px p) (px self) \<and> num_eq (py p) (py self))"

definition origin :: point where
  "origin = Point (PInt 0) (PInt 0)"

subsection \<open>Transformations\<close>

text \<open>
  One constructor per class, holding the fields its \<open>__init__\<close> stores.
  \<open>Cycle n angle anchor s\<close> holds the resolved angle.
\<close>

datatype transformation =
    Translate num num
  | Rotate num point
  | Scale num num
  | TransformationList "transformation list"
  | Repeat int transformation
  | Cycle int num point "num option"

text \<open>\<open>Rotate.__init__\<close> (anchor defaults to \<open>Point(0, 0)\<close>).\<close>

definition Rotate_init :: "num \<Rightarrow> point option \<Rightarrow> transformation" where
  "Rotate_init angle anchor = Rotate angle (case anchor of None \<Rightarrow> Point (PInt 0) (PInt 0) | Some p \<Rightarrow> p)"

text \<open>\<open>Scale.__init__\<close>: \<open>sy\<close> defaults to \<open>sx\<close>.\<close>

definition Scale_init :: "num \<Rightarrow> num option \<Rightarrow> transformation" where
  "Scale_init sx sy = Scale sx (case sy of None \<Rightarrow> sx | Some y \<Rightarrow> y)"

text \<open>\<open>Cycle.__init__\<close>: the angle defaults to \<open>360/n\<close>, which raises for \<open>n = 0\<close>.\<close>

definition Cycle_init :: "int \<Rightarrow> point \<Rightarrow> num option \<Rightarrow> num option \<Rightarrow> error + transformation" where
  "Cycle_init n anchor s angle =
     (case angle of
        Some a \<Rightarrow> Inr (Cycle n a anchor s)
      | None \<Rightarrow> (case int_truediv 360 n of
                   Inl e \<Rightarrow> Inl e
                 | Inr a \<Rightarrow> Inr (Cycle n a anchor s)))"

text \<open>
  \<open>join\<close>: \<open>TransformationList.join\<close> appends; every other class inherits
  \<open>Transformation.join\<close>, which pairs. \<open>t1 | t2\<close> is \<open>t1.join(t2)\<close>.
\<close>

fun join :: "transformation \<Rightarrow> transformation \<Rightarrow> transformation" where
  "join (TransformationList ts) t = TransformationList (ts @ [t])"
| "join self t = TransformationList [self, t]"

definition t_or :: "transformation \<Rightarrow> transformation \<Rightarrow> transformation" where
  "t_or left right = join left right"

text \<open>
  \<open>as_str\<close>. \<open>Repeat\<close> and \<open>Cycle\<close> define none, so calling it on them raises
  \<open>AttributeError\<close>; in a list the first failing component raises.
\<close>

fun join_results :: "(error + string) list \<Rightarrow> error + string list" where
  "join_results [] = Inr []"
| "join_results (Inl e # rs) = Inl e"
| "join_results (Inr x # rs) = (case join_results rs of Inl e \<Rightarrow> Inl e | Inr xs \<Rightarrow> Inr (x # xs))"

fun as_str :: "(rat \<Rightarrow> string) \<Rightarrow> transformation \<Rightarrow> error + string" where
  "as_str fr (Translate x y) = Inr (''translate('' @ str_num fr x @ '' '' @ str_num fr y @ '')'')"
| "as_str fr (Rotate angle anchor) =
     (if point_eq anchor (Point (PInt 0) (PInt 0))
      then Inr (''rotate('' @ str_num fr angle @ '')'')
      else Inr (''rotate('' @ str_num fr angle @ '' '' @ str_num fr (px anchor) @ '' ''
                @ str_num fr (py anchor) @ '')''))"
| "as_str fr (Scale sx sy) = Inr (''scale('' @ str_num fr sx @ '' '' @ str_num fr sy @ '')'')"
| "as_str fr (TransformationList ts) =
     (case join_results (map (as_str fr) ts) of
        Inl e \<Rightarrow> Inl e
      | Inr xs \<Rightarrow> Inr (join_str '' '' xs))"
| "as_str fr (Repeat n t) = Inl (AttributeError ''as_str'')"
| "as_str fr (Cycle n angle anchor s) = Inl (AttributeError ''as_str'')"

subsection \<open>Shapes\<close>

text \<open>
  A \<open>Shape\<close> object holds \<open>tag\<close>, \<open>children\<close>, \<open>attrs\<close> and \<open>transform\<close>.
  \<open>attrs\<close> is a dict: an association list in insertion order, with distinct keys.
  The fields the subclasses store besides (\<open>center\<close>, \<open>radius\<close>, ...) are read by
  no method and are left out.
\<close>

datatype shape =
  Shape (tag: string) (children: "shape list option") (attrs: "(string \<times> pyval) list")
        (transform: "transformation option")

text \<open>\<open>Shape.__init__\<close>: the \<open>transform\<close> parameter is not stored.\<close>

definition Shape_init ::
  "string \<Rightarrow> shape list option \<Rightarrow> transformation option \<Rightarrow> (string \<times> pyval) list \<Rightarrow> shape" where
  "Shape_init tag' children' transform' attrs' = Shape tag' children' attrs' None"

text \<open>
  Keyword arguments. In a call \<open>f(k=v, ..., **kwargs)\<close> Python raises \<open>TypeError\<close> for
  the first name of \<open>kwargs\<close> that is given explicitly too, and then, binding the
  arguments, for the first one that names a parameter filled already. \<open>clash\<close> tries
  groups of names in turn and gives the name that raises.
\<close>

fun first_clash :: "string list \<Rightarrow> (string \<times> pyval) list \<Rightarrow> string option" where
  "first_clash names [] = None"
| "first_clash names ((k, v) # kvs) = (if k \<in> set names then Some k else first_clash names kvs)"

fun clash :: "string list list \<Rightarrow> (string \<times> pyval) list \<Rightarrow> string option" where
  "clash [] kwargs = None"
| "clash (names # groups) kwargs =
     (case first_clash names kwargs of Some k \<Rightarrow> Some k | None \<Rightarrow> clash groups kwargs)"

text \<open>
  The concrete constructors, called with the keywords that are not scalars given
  explicitly: \<open>Circle(center, radius, children=children, transform=transform, **kwargs)\<close>,
  where \<open>kwargs\<close> holds scalar values. A name of \<open>kwargs\<close> clashes, in this order, with
  a keyword of that call, with a parameter of \<open>Circle.__init__\<close>, with a keyword of
  its call \<open>super().__init__("circle", cx=cx, cy=cy, r=self.radius, **kwargs)\<close>, and with
  the parameter \<open>tag\<close> of \<open>Shape.__init__\<close>. Otherwise \<open>Shape.__init__\<close> binds
  \<open>children\<close> and \<open>transform\<close> to its parameters and takes the rest as \<open>attrs\<close>.
\<close>

definition Circle ::
  "point \<Rightarrow> num \<Rightarrow> shape list option \<Rightarrow> transformation option \<Rightarrow> (string \<times> pyval) list
   \<Rightarrow> error + shape" where
  "Circle center radius children' transform' kwargs =
     (case clash [[''children'', ''transform''], [''self'', ''center'', ''radius''],
                  [''cx'', ''cy'', ''r''], [''tag'']] kwargs of
        Some k \<Rightarrow> Inl (TypeError k)
      | None \<Rightarrow>
          Inr (Shape_init ''circle'' children' transform'
                 ([(''cx'', PNum (px center)), (''cy'', PNum (py center)), (''r'', PNum radius)]
                  @ kwargs)))"

definition Line ::
  "point \<Rightarrow> point \<Rightarrow> shape list option \<Rightarrow> transformation option \<Rightarrow> (string \<times> pyval) list
   \<Rightarrow> error + shape" where
  "Line start end' children' transform' kwargs =
     (case clash [[''children'', ''transform''], [''self'', ''start'', ''end''],
                  [''x1'', ''y1'', ''x2'', ''y2''], [''tag'']] kwargs of
        Some k \<Rightarrow> Inl (TypeError k)
      | None \<Rightarrow>
          Inr (Shape_init ''line'' children' transform'
                 ([(''x1'', PNum (px start)), (''y1'', PNum (py start)),
                   (''x2'', PNum (px end')), (''y2'', PNum (py end'))] @ kwargs)))"

text \<open>
  \<open>Group(shapes, transform=transform, **kwargs)\<close>; its call of the base constructor is
  \<open>super().__init__("g", children=shapes, **kwargs)\<close>.
\<close>

definition Group ::
  "shape list \<Rightarrow> transformation option \<Rightarrow> (string \<times> pyval) list \<Rightarrow> error + shape" where
  "Group shapes transform' kwargs =
     (case clash [[''transform''], [''self'', ''shapes''], [''children''], [''tag'']] kwargs of
        Some k \<Rightarrow> Inl (TypeError k)
      | None \<Rightarrow> Inr (Shape_init ''g'' (Some shapes) transform' kwargs))"

text \<open>
  The calls without keyword arguments, which cannot raise: \<open>Circle(center, radius)\<close>, and
  \<open>Group(shapes)\<close> as \<open>Repeat.apply\<close>, \<open>Cycle.apply\<close> and \<open>combine\<close> call it.
\<close>

definition Circle_of :: "point \<Rightarrow> num \<Rightarrow> shape" where
  "Circle_of center radius =
     Shape_init ''circle'' None None
       [(''cx'', PNum (px center)), (''cy'', PNum (py center)), (''r'', PNum radius)]"

definition Group_of :: "shape list \<Rightarrow> shape" where
  "Group_of shapes = Shape_init ''g'' (Some shapes) None []"

definition combine :: "shape list \<Rightarrow> shape" where
  "combine shapes = Group_of shapes"

text \<open>\<open>Circle()\<close> with its defaults.\<close>

definition Circle_default :: shape where
  "Circle_default = Circle_of (Point (PInt 0) (PInt 0)) (PInt 100)"

text \<open>\<open>Shape.__getattr__\<close>, the hook Python calls for a name that normal lookup misses.\<close>

definition startswith :: "string \<Rightarrow> string \<Rightarrow> bool" where
  "startswith s p = (take (length p) s = p)"

definition Shape_getattr :: "shape \<Rightarrow> string \<Rightarrow> error + pyval" where
  "Shape_getattr self name =
     (if \<not> startswith name ''_'' \<and> name \<in> set (map fst (attrs self))
      then (case map_of (attrs self) name of Some v \<Rightarrow> Inr v | None \<Rightarrow> Inl (AttributeError name))
      else Inl (AttributeError name))"

text \<open>
  Attribute access \<open>s.name\<close>. Normal lookup comes first and finds the fields that
  \<open>__init__\<close> stores in the object, the methods of class \<open>Shape\<close>, and what Python finds
  besides: the attributes every object has (\<open>__class__\<close>, \<open>__dict__\<close>, ...) and the fields
  a subclass stores (\<open>center\<close>, \<open>radius\<close>, ...). These last are not part of a shape here
  and are the parameter \<open>others\<close>. Only a name that none of them has reaches
  \<open>__getattr__\<close>. A method or a name of \<open>others\<close> is given by its name.
\<close>

datatype attribute =
    A_tag string
  | A_children "shape list option"
  | A_attrs "(string \<times> pyval) list"
  | A_transform "transformation option"
  | A_member string
  | A_extra pyval

definition Shape_methods :: "string list" where
  "Shape_methods =
     [''__init__'', ''__repr__'', ''__getattr__'', ''apply_transform'', ''clone'', ''get_attrs'',
      ''_svg'', ''as_svg'', ''__add__'', ''_repr_svg_'']"

definition found_normally :: "string list \<Rightarrow> string \<Rightarrow> bool" where
  "found_normally others name =
     (name \<in> set [''tag'', ''children'', ''attrs'', ''transform''] \<or> name \<in> set Shape_methods
      \<or> name \<in> set others)"

definition access :: "string list \<Rightarrow> shape \<Rightarrow> string \<Rightarrow> error + attribute" where
  "access others self name =
     (if name = ''tag'' then Inr (A_tag (tag self))
      else if name = ''children'' then Inr (A_children (children self))
      else if name = ''attrs'' then Inr (A_attrs (attrs self))
      else if name = ''transform'' then Inr (A_transform (transform self))
      else if name \<in> set Shape_methods \<or> name \<in> set others then Inr (A_member name)
      else (case Shape_getattr self name of Inl e \<Rightarrow> Inl e | Inr v \<Rightarrow> Inr (A_extra v)))"

text \<open>
  For the examples: the attributes that CPython (3.12) gives every object of a class, which
  are not code of this repository, and the fields \<open>Circle.__init__\<close> stores. No
  example looks up one of these names.
\<close>

definition object_names :: "string list" where
  "object_names =
     [''__class__'', ''__delattr__'', ''__dict__'', ''__dir__'', ''__doc__'', ''__eq__'',
      ''__format__'', ''__ge__'', ''__getattribute__'', ''__getstate__'', ''__gt__'', ''__hash__'',
      ''__init_subclass__'', ''__le__'', ''__lt__'', ''__module__'', ''__ne__'', ''__new__'',
      ''__reduce__'', ''__reduce_ex__'', ''__setattr__'', ''__sizeof__'', ''__str__'',
      ''__subclasshook__'', ''__weakref__'']"

definition Circle_fields :: "string list" where
  "Circle_fields = [''center'', ''radius'']"

text \<open>
  \<open>clone\<close> copies every field into a new object; \<open>apply_transform\<close> sets the clone's
  \<open>transform\<close>, joined to the one the shape carries already.
\<close>

definition clone :: "shape \<Rightarrow> shape" where
  "clone self = Shape (tag self) (children self) (attrs self) (transform self)"

definition set_transform :: "shape \<Rightarrow> transformation \<Rightarrow> shape" where
  "set_transform s t = Shape (tag s) (children s) (attrs s) (Some t)"

definition apply_transform :: "shape \<Rightarrow> transformation \<Rightarrow> shape" where
  "apply_transform self t =
     (let t' = (case transform self of Some t0 \<Rightarrow> t_or t0 t | None \<Rightarrow> t);
          shape = clone self
      in set_transform shape t')"

subsection \<open>Applying transformations\<close>

text \<open>\<open>Transformation.apply\<close>, which \<open>Translate\<close>, \<open>Rotate\<close>, \<open>Scale\<close> and
  \<open>TransformationList\<close> inherit.\<close>

definition Transformation_apply :: "transformation \<Rightarrow> shape \<Rightarrow> shape" where
  "Transformation_apply self shape = apply_transform shape self"

text \<open>The loop of \<open>Repeat.apply\<close>, run \<open>k\<close> times: \<open>range(n - 1)\<close> has \<open>nat (n - 1)\<close> elements.\<close>

fun repeat_loop :: "(shape \<Rightarrow> shape) \<Rightarrow> nat \<Rightarrow> shape \<Rightarrow> shape list \<Rightarrow> shape list" where
  "repeat_loop f 0 shape shapes = shapes"
| "repeat_loop f (Suc k) shape shapes =
     (let shape' = f shape in repeat_loop f k shape' (shapes @ [shape']))"

text \<open>The two list comprehensions of \<open>Cycle.apply\<close>.\<close>

definition cycle_rotations :: "int \<Rightarrow> num \<Rightarrow> point \<Rightarrow> shape \<Rightarrow> shape list" where
  "cycle_rotations n angle anchor shape =
     map (\<lambda>i. Transformation_apply (Rotate_init (num_mul (PInt (int i)) angle) (Some anchor)) shape)
         [0 ..< nat n]"

definition cycle_scales :: "num \<Rightarrow> shape list \<Rightarrow> shape list" where
  "cycle_scales s shapes =
     map (\<lambda>(i, shape'). Transformation_apply (Scale_init (num_pow s i) None) shape')
         (enumerate 0 shapes)"

text \<open>
  \<open>t.apply(shape)\<close>, dispatched on the class of \<open>t\<close> (named \<open>t_apply\<close>, as \<open>apply\<close>
  is a keyword of Isabelle); \<open>shape | t\<close> is \<open>t.apply(shape)\<close>.
\<close>

fun t_apply :: "transformation \<Rightarrow> shape \<Rightarrow> shape" where
  "t_apply (Repeat n t) shape = Group_of (repeat_loop (t_apply t) (nat (n - 1)) shape [shape])"
| "t_apply (Cycle n angle anchor s) shape =
     (let shapes = cycle_rotations n angle anchor shape;
          shapes = (case s of Some sc \<Rightarrow> cycle_scales sc shapes | None \<Rightarrow> shapes)
      in Group_of shapes)"
| "t_apply (Translate x y) shape = Transformation_apply (Translate x y) shape"
| "t_apply (Rotate angle anchor) shape = Transformation_apply (Rotate angle anchor) shape"
| "t_apply (Scale sx sy) shape = Transformation_apply (Scale sx sy) shape"
| "t_apply (TransformationList ts) shape = Transformation_apply (TransformationList ts) shape"

definition pipe :: "shape \<Rightarrow> transformation \<Rightarrow> shape" where
  "pipe shape t = t_apply t shape"

subsection \<open>Rendering\<close>

text \<open>\<open>attrs[key] = value\<close> on a dict: an existing key keeps its place.\<close>

fun dict_set :: "string \<Rightarrow> pyval \<Rightarrow> (string \<times> pyval) list \<Rightarrow> (string \<times> pyval) list" where
  "dict_set k v [] = [(k, v)]"
| "dict_set k v ((k', v') # kvs) =
     (if k' = k then (k, v) # kvs else (k', v') # dict_set k v kvs)"

text \<open>\<open>get_attrs\<close>: any transformation object is truthy.\<close>

definition get_attrs :: "(rat \<Rightarrow> string) \<Rightarrow> shape \<Rightarrow> error + (string \<times> pyval) list" where
  "get_attrs fr self =
     (case transform self of
        None \<Rightarrow> Inr (attrs self)
      | Some t \<Rightarrow> (case as_str fr t of
                     Inl e \<Rightarrow> Inl e
                   | Inr text \<Rightarrow> Inr (dict_set ''transform'' (PStr text) (attrs self))))"

definition render_items :: "(rat \<Rightarrow> string) \<Rightarrow> (string \<times> pyval) list \<Rightarrow> (string \<times> string) list" where
  "render_items fr attrs' =
     map (\<lambda>(k, v). (replace_underscore k, html_escape (str_val fr v)))
         (filter (\<lambda>(k, v). v \<noteq> PNone) attrs')"

definition render_tag :: "(rat \<Rightarrow> string) \<Rightarrow> string \<Rightarrow> bool \<Rightarrow> (string \<times> pyval) list \<Rightarrow> string" where
  "render_tag fr tag' close attrs' =
     (let end' = (if close then '' />'' else ''>'')
      in if attrs' \<noteq> []
         then (let items = render_items fr attrs';
                   attrs_text = join_str '' '' (map (\<lambda>(k, v). k @ [CHR ''='', CHR 0x22] @ v @ [CHR 0x22]) items)
               in ''<'' @ tag' @ '' '' @ attrs_text @ end')
         else ''<'' @ tag' @ end')"

text \<open>
  The call \<open>render_tag(self.tag, **attrs, close=...)\<close> of \<open>_svg\<close>: an attribute named
  \<open>close\<close> or \<open>tag\<close> meets a parameter given already, a \<open>TypeError\<close>.
\<close>

definition call_render_tag ::
  "(rat \<Rightarrow> string) \<Rightarrow> string \<Rightarrow> (string \<times> pyval) list \<Rightarrow> bool \<Rightarrow> error + string" where
  "call_render_tag fr tag' attrs' close =
     (if ''close'' \<in> set (map fst attrs') then Inl (TypeError ''close'')
      else if ''tag'' \<in> set (map fst attrs') then Inl (TypeError ''tag'')
      else Inr (render_tag fr tag' close attrs'))"

text \<open>\<open>"".join(c._svg(...) for c in children)\<close>: the first child that raises ends it.\<close>

fun concat_results :: "(error + string) list \<Rightarrow> error + string" where
  "concat_results [] = Inr []"
| "concat_results (Inl e # rs) = Inl e"
| "concat_results (Inr x # rs) = (case concat_results rs of Inl e \<Rightarrow> Inl e | Inr y \<Rightarrow> Inr (x @ y))"

text \<open>\<open>Shape._svg\<close>: \<open>None\<close> and the empty list of children are both falsy.\<close>

fun svg :: "(rat \<Rightarrow> string) \<Rightarrow> shape \<Rightarrow> string \<Rightarrow> error + string" where
  "svg fr (Shape tag' children' attrs' transform') indent =
     (case get_attrs fr (Shape tag' children' attrs' transform') of
        Inl e \<Rightarrow> Inl e
      | Inr a \<Rightarrow>
          (case children' of
             Some (c # cs) \<Rightarrow>
               (case call_render_tag fr tag' a False of
                  Inl e \<Rightarrow> Inl e
                | Inr tag_text \<Rightarrow>
                    (case concat_results (map (\<lambda>c'. svg fr c' (indent @ ''  '')) (c # cs)) of
                       Inl e \<Rightarrow> Inl e
                     | Inr inner \<Rightarrow>
                         Inr (indent @ tag_text @ [CHR 0x0A] @ inner @ indent @ ''</'' @ tag' @ ''>'' @ [CHR 0x0A])))
           | _ \<Rightarrow>
               (case call_render_tag fr tag' a True of
                  Inl e \<Rightarrow> Inl e
                | Inr tag_text \<Rightarrow> Inr (indent @ tag_text @ [CHR 0x0A]))))"

text \<open>What rendering gives for the result of a constructor, the constructor's error first.\<close>

definition built_svg :: "(rat \<Rightarrow> string) \<Rightarrow> error + shape \<Rightarrow> string \<Rightarrow> error + string" where
  "built_svg fr built indent = (case built of Inl e \<Rightarrow> Inl e | Inr s \<Rightarrow> svg fr s indent)"

text \<open>\<open>SVG(nodes, width, height).render()\<close>, for an integer canvas size.\<close>

definition viewBox :: "int \<Rightarrow> int \<Rightarrow> string" where
  "viewBox width height =
     ''-'' @ str_int (width div 2) @ '' -'' @ str_int (height div 2) @ '' '' @ str_int width
       @ '' '' @ str_int height"

definition svg_header :: "(rat \<Rightarrow> string) \<Rightarrow> int \<Rightarrow> int \<Rightarrow> string" where
  "svg_header fr width height =
     render_tag fr ''svg'' False
       [(''width'', PNum (PInt width)),
        (''height'', PNum (PInt height)),
        (''viewBox'', PStr (viewBox width height)),
        (''fill'', PStr ''none''),
        (''stroke'', PStr ''black''),
        (''xmlns'', PStr ''http://www.w3.org/2000/svg'')] @ [CHR 0x0A]"

definition render :: "(rat \<Rightarrow> string) \<Rightarrow> shape list \<Rightarrow> int \<Rightarrow> int \<Rightarrow> error + string" where
  "render fr nodes width height =
     (case concat_results (map (\<lambda>node. svg fr node ''  '') nodes) of
        Inl e \<Rightarrow> Inl e
      | Inr nodes_text \<Rightarrow> Inr (svg_header fr width height @ nodes_text @ ''</svg>'' @ [CHR 0x0A]))"

text \<open>\<open>Shape.as_svg\<close>.\<close>

definition as_svg :: "(rat \<Rightarrow> string) \<Rightarrow> shape \<Rightarrow> int \<Rightarrow> int \<Rightarrow> error + string" where
  "as_svg fr self width height = render fr [self] width height"

subsection \<open>Shape objects in a store\<close>

text \<open>
  The shapes above are values. In Python a shape is an object and a variable holds a
  reference to it; the children of a group are references too, and \<open>clone\<close> copies them,
  so that a shape and its clone share their children. The same operations follow on a
  store of objects, to see which objects an application writes. An address is an index
  into the store and a new object is put at the end; a reference always points to an
  object, so the operations are used at addresses below the length of the store.
\<close>

datatype obj =
  Obj (o_tag: string) (o_children: "nat list option") (o_attrs: "(string \<times> pyval) list")
      (o_transform: "transformation option")

type_synonym store = "obj list"

definition alloc :: "store \<Rightarrow> obj \<Rightarrow> nat \<times> store" where
  "alloc \<sigma> ob = (length \<sigma>, \<sigma> @ [ob])"

text \<open>\<open>clone\<close>: \<open>object.__new__\<close>, then the fields of \<open>self\<close> copied into the new object.\<close>

definition clone_h :: "store \<Rightarrow> nat \<Rightarrow> nat \<times> store" where
  "clone_h \<sigma> self = alloc \<sigma> (\<sigma> ! self)"

text \<open>The assignment \<open>shape.transform = transform\<close>, the only write to a field of a
  shape outside \<open>__init__\<close>.\<close>

definition set_transform_h :: "store \<Rightarrow> nat \<Rightarrow> transformation \<Rightarrow> store" where
  "set_transform_h \<sigma> a t =
     \<sigma>[a := Obj (o_tag (\<sigma> ! a)) (o_children (\<sigma> ! a)) (o_attrs (\<sigma> ! a)) (Some t)]"

definition apply_transform_h :: "store \<Rightarrow> nat \<Rightarrow> transformation \<Rightarrow> nat \<times> store" where
  "apply_transform_h \<sigma> self t =
     (let t' = (case o_transform (\<sigma> ! self) of Some t0 \<Rightarrow> t_or t0 t | None \<Rightarrow> t);
          (shape, \<sigma>1) = clone_h \<sigma> self
      in (shape, set_transform_h \<sigma>1 shape t'))"

definition Group_h :: "store \<Rightarrow> nat list \<Rightarrow> nat \<times> store" where
  "Group_h \<sigma> shapes = alloc \<sigma> (Obj ''g'' (Some shapes) [] None)"

text \<open>The loop of \<open>Repeat.apply\<close> and a list comprehension, threading the store.\<close>

fun repeat_loop_h ::
  "(store \<Rightarrow> nat \<Rightarrow> nat \<times> store) \<Rightarrow> nat \<Rightarrow> store \<Rightarrow> nat \<Rightarrow> nat list \<Rightarrow> nat list \<times> store" where
  "repeat_loop_h f 0 \<sigma> shape shapes = (shapes, \<sigma>)"
| "repeat_loop_h f (Suc k) \<sigma> shape shapes =
     (let (shape', \<sigma>') = f \<sigma> shape in repeat_loop_h f k \<sigma>' shape' (shapes @ [shape']))"

fun comprehension_h :: "('a \<Rightarrow> store \<Rightarrow> nat \<times> store) \<Rightarrow> 'a list \<Rightarrow> store \<Rightarrow> nat list \<times> store" where
  "comprehension_h f [] \<sigma> = ([], \<sigma>)"
| "comprehension_h f (x # xs) \<sigma> =
     (let (a, \<sigma>1) = f x \<sigma>; (as, \<sigma>2) = comprehension_h f xs \<sigma>1 in (a # as, \<sigma>2))"

fun t_apply_h :: "transformation \<Rightarrow> store \<Rightarrow> nat \<Rightarrow> nat \<times> store" where
  "t_apply_h (Repeat n t) \<sigma> shape =
     (let (shapes, \<sigma>') = repeat_loop_h (t_apply_h t) (nat (n - 1)) \<sigma> shape [shape]
      in Group_h \<sigma>' shapes)"
| "t_apply_h (Cycle n angle anchor s) \<sigma> shape =
     (let (shapes, \<sigma>1) =
            comprehension_h
              (\<lambda>i \<sigma>. apply_transform_h \<sigma> shape (Rotate_init (num_mul (PInt (int i)) angle) (Some anchor)))
              [0 ..< nat n] \<sigma>;
          (shapes, \<sigma>2) =
            (case s of
               Some sc \<Rightarrow>
                 comprehension_h
                   (\<lambda>(i, shape') \<sigma>. apply_transform_h \<sigma> shape' (Scale_init (num_pow sc i) None))
                   (enumerate 0 shapes) \<sigma>1
             | None \<Rightarrow> (shapes, \<sigma>1))
      in Group_h \<sigma>2 shapes)"
| "t_apply_h (Translate x y) \<sigma> shape = apply_transform_h \<sigma> shape (Translate x y)"
| "t_apply_h (Rotate angle anchor) \<sigma> shape = apply_transform_h \<sigma> shape (Rotate angle anchor)"
| "t_apply_h (Scale sx sy) \<sigma> shape = apply_transform_h \<sigma> shape (Scale sx sy)"
| "t_apply_h (TransformationList ts) \<sigma> shape = apply_transform_h \<sigma> shape (TransformationList ts)"

text \<open>
  The value an address stands for: the object's fields, and for its children the values
  their addresses stand for.
\<close>

inductive denotes :: "store \<Rightarrow> nat \<Rightarrow> shape \<Rightarrow> bool" where
  leaf: "a < length \<sigma> \<Longrightarrow> \<sigma> ! a = Obj tg None ats tr \<Longrightarrow> denotes \<sigma> a (Shape tg None ats tr)"
| node: "a < length \<sigma> \<Longrightarrow> \<sigma> ! a = Obj tg (Some cs) ats tr \<Longrightarrow> list_all2 (denotes \<sigma>) cs ss \<Longrightarrow>
         denotes \<sigma> a (Shape tg (Some ss) ats tr)"

code_pred (modes: i \<Rightarrow> i \<Rightarrow> i \<Rightarrow> bool) denotes .

text \<open>A \<open>Cycle\<close> that makes no copy: \<open>range(n)\<close> is empty.\<close>

definition degenerate_cycle :: "transformation \<Rightarrow> bool" where
  "degenerate_cycle t = (case t of Cycle n a p sc \<Rightarrow> n \<le> 0 | _ \<Rightarrow> False)"

text \<open>What rendering the object at an address gives: the rendering of its value.\<close>

definition rendering :: "(rat \<Rightarrow> string) \<Rightarrow> store \<Rightarrow> nat \<Rightarrow> (error + string) set" where
  "rendering fr \<sigma> a = {svg fr s [] | s. denotes \<sigma> a s}"

subsection \<open>Notions used to state the properties\<close>

text \<open>The higher-order transformations, whose \<open>apply\<close> builds a group.\<close>

definition higher_order :: "transformation \<Rightarrow> bool" where
  "higher_order t = (case t of Repeat n t' \<Rightarrow> True | Cycle n a p s \<Rightarrow> True | _ \<Rightarrow> False)"

text \<open>What \<open>join\<close> appends to: the entries of a list, or the transformation itself.\<close>

fun components :: "transformation \<Rightarrow> transformation list" where
  "components (TransformationList ts) = ts"
| "components t = [t]"

text \<open>Two serialized transformations side by side, and a list of them joined by spaces;
  the first error wins.\<close>

definition both :: "error + string \<Rightarrow> error + string \<Rightarrow> error + string" where
  "both r1 r2 =
     (case r1 of Inl e \<Rightarrow> Inl e
      | Inr a \<Rightarrow> (case r2 of Inl e \<Rightarrow> Inl e | Inr b \<Rightarrow> Inr (a @ '' '' @ b)))"

definition joined :: "(error + string) list \<Rightarrow> error + string" where
  "joined rs = (case join_results rs of Inl e \<Rightarrow> Inl e | Inr xs \<Rightarrow> Inr (join_str '' '' xs))"

subsection \<open>What the specification says, for comparison with the code\<close>

abbreviation (input) dq :: string where
  "dq \<equiv> [CHR 0x22]"

text \<open>
  The specification's viewBox is \<open>"{-width/2} {-height/2} {width} {height}"\<close>, a rectangle
  centred at the origin. \<open>spec_neg_half w\<close> is the decimal numeral of the number \<open>-w/2\<close>.
\<close>

definition spec_neg_half :: "int \<Rightarrow> string" where
  "spec_neg_half w =
     (if even w then str_int (- (w div 2))
      else (if 0 < w then ''-'' else []) @ str_nat (nat \<bar>w\<bar> div 2) @ ''.5'')"

definition spec_viewBox :: "int \<Rightarrow> int \<Rightarrow> string" where
  "spec_viewBox width height =
     spec_neg_half width @ '' '' @ spec_neg_half height @ '' '' @ str_int width @ '' '' @ str_int height"

text \<open>
  The horizontal displacement of a transform made of translations: SVG applies the
  entries of a transform list one after the other, so their offsets add up.
\<close>

fun x_offset :: "transformation \<Rightarrow> rat" where
  "x_offset (Translate x y) = num_val x"
| "x_offset (TransformationList ts) = sum_list (map x_offset ts)"
| "x_offset (Rotate angle anchor) = 0"
| "x_offset (Scale sx sy) = 0"
| "x_offset (Repeat n t) = 0"
| "x_offset (Cycle n angle anchor s) = 0"

definition shape_x_offset :: "shape \<Rightarrow> rat" where
  "shape_x_offset s = (case transform s of None \<Rightarrow> 0 | Some t \<Rightarrow> x_offset t)"

definition digits :: "char set" where
  "digits = set ''0123456789''"

section \<open>Properties\<close>

subsection \<open>Text of integers\<close>

lemma digit_char_in: "d < 10 \<Longrightarrow> digit_char d \<in> digits"
  unfolding digit_char_def digits_def by (rule nth_mem) simp

lemma str_nat_digits: "set (str_nat n) \<subseteq> digits"
proof (induction n rule: str_nat.induct)
  case (1 n)
  show ?case
  proof (cases "n < 10")
    case True
    then have "str_nat n = [digit_char n]" by (subst str_nat.simps) simp
    then show ?thesis using digit_char_in [OF True] by simp
  next
    case False
    then have eq: "str_nat n = str_nat (n div 10) @ [digit_char (n mod 10)]"
      by (subst str_nat.simps) simp
    have "digit_char (n mod 10) \<in> digits" by (rule digit_char_in) simp
    with 1 [OF False] show ?thesis by (simp add: eq)
  qed
qed

lemma escape_char_digit: "c \<in> digits \<Longrightarrow> escape_char c = [c]"
  unfolding digits_def by auto

lemma html_escape_Cons: "html_escape (c # s) = escape_char c @ html_escape s"
  by (simp add: html_escape_def)

lemma html_escape_Nil: "html_escape [] = []"
  by (simp add: html_escape_def)

lemma html_escape_append: "html_escape (a @ b) = html_escape a @ html_escape b"
  by (simp add: html_escape_def)

lemma html_escape_digits: "set s \<subseteq> digits \<Longrightarrow> html_escape s = s"
  by (induction s) (simp_all add: html_escape_Cons html_escape_Nil escape_char_digit del: escape_char.simps)

lemma html_escape_str_nat: "html_escape (str_nat n) = str_nat n"
  by (rule html_escape_digits) (rule str_nat_digits)

lemma html_escape_str_int: "html_escape (str_int i) = str_int i"
  by (simp add: str_int_def html_escape_Cons html_escape_str_nat)

lemma html_escape_viewBox: "html_escape (viewBox w h) = viewBox w h"
  by (simp add: viewBox_def html_escape_append html_escape_str_int html_escape_Cons html_escape_Nil)

lemmas eval_str = str_int_def str_nat.simps digit_char_def

subsection \<open>The root element\<close>

lemma svg_header_text:
  "svg_header fr w h =
     ''<svg width='' @ dq @ str_int w @ dq @ '' height='' @ dq @ str_int h @ dq
     @ '' viewBox='' @ dq @ viewBox w h @ dq @ '' fill='' @ dq @ ''none'' @ dq
     @ '' stroke='' @ dq @ ''black'' @ dq @ '' xmlns='' @ dq @ ''http://www.w3.org/2000/svg'' @ dq
     @ ''>'' @ [CHR 0x0A]"
  by (simp add: svg_header_def render_tag_def render_items_def html_escape_viewBox html_escape_str_int
        html_escape_Cons html_escape_Nil replace_underscore_def)

lemma neg_half_even: "even w \<Longrightarrow> 2 \<le> w \<Longrightarrow> ''-'' @ str_int (w div 2) = spec_neg_half w"
  by (auto simp add: spec_neg_half_def str_int_def)

lemma render_starts_with_header:
  "render fr nodes w h = Inr text \<Longrightarrow> prefix (svg_header fr w h) text"
  by (auto simp add: render_def split: sum.splits)

text \<open>
  C5, as stated, fails on the code: for a canvas of odd size the code writes a minus sign
  and the floor of half the size, not the number \<open>-width/2\<close>. At 301 by 301 the viewBox
  is \<open>-150 -150 301 301\<close>, where the specification's formula gives \<open>-150.5\<close>; at 1 by 1
  it is \<open>-0 -0 1 1\<close>.
\<close>

theorem viewBox_odd_counterexample:
  "viewBox 301 301 = ''-150 -150 301 301'' \<and> spec_viewBox 301 301 = ''-150.5 -150.5 301 301''
   \<and> viewBox 301 301 \<noteq> spec_viewBox 301 301
   \<and> viewBox 1 1 = ''-0 -0 1 1'' \<and> spec_viewBox 1 1 = ''-0.5 -0.5 1 1''
   \<and> viewBox 1 1 \<noteq> spec_viewBox 1 1"
  by (simp add: viewBox_def spec_viewBox_def spec_neg_half_def eval_str)

text \<open>
  C5, amended: for every integer width and height the rendered text starts with the root
  element, which carries width, height, a viewBox made of a minus sign and the floor of
  half the width, the same for the height, then the width and the height, and then
  \<open>fill="none"\<close>, \<open>stroke="black"\<close> and the SVG namespace. That viewBox is the
  specification's \<open>"{-width/2} {-height/2} {width} {height}"\<close> whenever width and height
  are even and at least 2.
\<close>

theorem svg_root_element:
  "svg_header fr w h =
     ''<svg width='' @ dq @ str_int w @ dq @ '' height='' @ dq @ str_int h @ dq
     @ '' viewBox='' @ dq @ ''-'' @ str_int (w div 2) @ '' -'' @ str_int (h div 2) @ '' ''
     @ str_int w @ '' '' @ str_int h @ dq @ '' fill='' @ dq @ ''none'' @ dq
     @ '' stroke='' @ dq @ ''black'' @ dq @ '' xmlns='' @ dq @ ''http://www.w3.org/2000/svg'' @ dq
     @ ''>'' @ [CHR 0x0A]
   \<and> (render fr nodes w h = Inr text \<longrightarrow> prefix (svg_header fr w h) text)
   \<and> (even w \<and> 2 \<le> w \<and> even h \<and> 2 \<le> h \<longrightarrow> viewBox w h = spec_viewBox w h)"
proof (intro conjI impI)
  show "svg_header fr w h =
     ''<svg width='' @ dq @ str_int w @ dq @ '' height='' @ dq @ str_int h @ dq
     @ '' viewBox='' @ dq @ ''-'' @ str_int (w div 2) @ '' -'' @ str_int (h div 2) @ '' ''
     @ str_int w @ '' '' @ str_int h @ dq @ '' fill='' @ dq @ ''none'' @ dq
     @ '' stroke='' @ dq @ ''black'' @ dq @ '' xmlns='' @ dq @ ''http://www.w3.org/2000/svg'' @ dq
     @ ''>'' @ [CHR 0x0A]"
    by (simp add: svg_header_text viewBox_def)
next
  assume "render fr nodes w h = Inr text"
  then show "prefix (svg_header fr w h) text" by (rule render_starts_with_header)
next
  assume "even w \<and> 2 \<le> w \<and> even h \<and> 2 \<le> h"
  then show "viewBox w h = spec_viewBox w h"
    using neg_half_even [of w] neg_half_even [of h] by (simp add: viewBox_def spec_viewBox_def)
qed

theorem svg_root_element_witness:
  "render repr_integral [] 300 300 =
     Inr (''<svg width='' @ dq @ ''300'' @ dq @ '' height='' @ dq @ ''300'' @ dq
          @ '' viewBox='' @ dq @ ''-150 -150 300 300'' @ dq @ '' fill='' @ dq @ ''none'' @ dq
          @ '' stroke='' @ dq @ ''black'' @ dq @ '' xmlns='' @ dq @ ''http://www.w3.org/2000/svg'' @ dq
          @ ''>'' @ [CHR 0x0A] @ ''</svg>'' @ [CHR 0x0A])
   \<and> even (300::int) \<and> (2::int) \<le> 300
   \<and> viewBox 300 300 = spec_viewBox 300 300
   \<and> spec_viewBox 300 300 = ''-150 -150 300 300''"
  using svg_root_element [of repr_integral 300 300 "[]"]
  by (simp add: render_def spec_viewBox_def spec_neg_half_def eval_str)

subsection \<open>Construction\<close>

lemma first_clash_drop:
  "k \<notin> set names \<Longrightarrow> first_clash names (xs @ (k, v) # ys) = first_clash names (xs @ ys)"
  by (induction xs) auto

lemma clash_drop:
  "k \<notin> \<Union> (set (map set groups)) \<Longrightarrow> clash groups (xs @ (k, v) # ys) = clash groups (xs @ ys)"
  by (induction groups) (simp_all add: first_clash_drop split: option.splits)

lemma constructors_without_keywords:
  "Circle c r None None [] = Inr (Circle_of c r)" "Group ss None [] = Inr (Group_of ss)"
  "Circle (Point (PInt 0) (PInt 0)) (PInt 100) None None [] = Inr Circle_default"
  by (simp_all add: Circle_def Group_def Circle_of_def Group_of_def Circle_default_def)

text \<open>
  C10: a shape built by the base constructor with \<open>transform=t\<close> stores no transform: the
  result is the one built without the argument, and so do the concrete constructors
  whenever they build a shape, also when \<open>transform=t\<close> is passed to them.
  A transformation applied afterwards is stored alone, so nothing of \<open>t\<close> was attached:
  only \<open>apply_transform\<close> attaches one.
\<close>

theorem constructor_ignores_transform:
  "transform (Shape_init tg ch (Some t) ats) = None
   \<and> Shape_init tg ch (Some t) ats = Shape_init tg ch None ats
   \<and> (Circle c r ch tr kw = Inr sh \<longrightarrow> transform sh = None)
   \<and> (Line a b ch tr kw = Inr sh \<longrightarrow> transform sh = None)
   \<and> (Group ss tr kw = Inr sh \<longrightarrow> transform sh = None)
   \<and> Circle c r ch (Some t) kw = Circle c r ch None kw
   \<and> Line a b ch (Some t) kw = Line a b ch None kw
   \<and> Group ss (Some t) kw = Group ss None kw
   \<and> transform (Circle_of c r) = None \<and> transform (Group_of ss) = None
   \<and> transform (combine ss) = None
   \<and> transform (apply_transform (Shape_init tg ch (Some t) ats) t') = Some t'"
  by (auto simp add: Shape_init_def Circle_def Line_def Group_def Circle_of_def Group_of_def
        combine_def apply_transform_def clone_def set_transform_def split: option.splits)

theorem constructor_ignores_transform_witness:
  "transform (Shape_init ''circle'' None (Some (Translate (PInt 10) (PInt 0))) [(''r'', PNum (PInt 5))]) = None
   \<and> svg repr_integral (Shape_init ''circle'' None (Some (Translate (PInt 10) (PInt 0))) [(''r'', PNum (PInt 5))]) []
       = Inr (''<circle r='' @ dq @ ''5'' @ dq @ '' />'' @ [CHR 0x0A])
   \<and> Circle (Point (PInt 0) (PInt 0)) (PInt 100) None (Some (Translate (PInt 10) (PInt 0))) []
       = Inr Circle_default
   \<and> transform Circle_default = None"
proof -
  have a: "transform (Shape_init ''circle'' None (Some (Translate (PInt 10) (PInt 0))) [(''r'', PNum (PInt 5))]) = None"
    using constructor_ignores_transform
      [of "''circle''" None "Translate (PInt 10) (PInt 0)" "[(''r'', PNum (PInt 5))]"]
    by blast
  have b: "svg repr_integral (Shape_init ''circle'' None (Some (Translate (PInt 10) (PInt 0))) [(''r'', PNum (PInt 5))]) []
       = Inr (''<circle r='' @ dq @ ''5'' @ dq @ '' />'' @ [CHR 0x0A])"
    by code_simp
  have c: "Circle (Point (PInt 0) (PInt 0)) (PInt 100) None (Some (Translate (PInt 10) (PInt 0))) []
       = Inr Circle_default"
    by code_simp
  have d: "transform Circle_default = None"
    using constructor_ignores_transform
      [where c = "Point (PInt 0) (PInt 0)" and r = "PInt 100" and ch = None
         and tr = "Some (Translate (PInt 10) (PInt 0))" and kw = "[]" and sh = Circle_default] c
    by blast
  from a b c d show ?thesis by blast
qed

subsection \<open>Attribute lookup\<close>

text \<open>
  C9, as stated, fails on the code. \<open>__getattr__\<close> refuses every name that starts with an
  underscore, so an attribute \<open>_hidden\<close> that is present with the value \<open>None\<close> raises
  the same error as one that was never given. And a name that normal lookup finds never
  reaches the attributes: with \<open>clone=None\<close> among them, \<open>s.clone\<close> is the method.
\<close>

theorem getattr_underscore_counterexample:
  "access object_names (Shape_init ''circle'' None None [(''_hidden'', PNone)]) ''_hidden''
     = Inl (AttributeError ''_hidden'')
   \<and> access object_names (Shape_init ''circle'' None None []) ''_hidden''
     = Inl (AttributeError ''_hidden'')
   \<and> access object_names (Shape_init ''circle'' None None [(''clone'', PNone)]) ''clone''
     = Inr (A_member ''clone'')"
  by code_simp

text \<open>
  C9, amended: for every shape and every name that Python's normal lookup does not find
  (not one of the fields \<open>tag\<close>, \<open>children\<close>, \<open>attrs\<close>, \<open>transform\<close>, not a method of
  \<open>Shape\<close>, not an attribute every object has nor a field a subclass stores): accessing
  it raises the attribute error when it is not among the shape's attributes, and succeeds
  with the stored value, the null value included, when it is among them and does not
  start with an underscore; the two outcomes differ. When it starts with an underscore
  the access raises the error whether it is among the attributes or not. A name that
  normal lookup finds gives the field or the member, never the error and never a value
  of the attributes.
\<close>

theorem getattr_undeclared_or_null:
  "(\<not> found_normally others name \<and> name \<notin> set (map fst (attrs s)) \<longrightarrow>
      access others s name = Inl (AttributeError name))
   \<and> (\<not> found_normally others name \<and> map_of (attrs s) name = Some v \<and> \<not> startswith name ''_'' \<longrightarrow>
      access others s name = Inr (A_extra v))
   \<and> (\<not> found_normally others name \<and> startswith name ''_'' \<longrightarrow>
      access others s name = Inl (AttributeError name))
   \<and> (found_normally others name \<longrightarrow>
      access others s name =
        (if name = ''tag'' then Inr (A_tag (tag s))
         else if name = ''children'' then Inr (A_children (children s))
         else if name = ''attrs'' then Inr (A_attrs (attrs s))
         else if name = ''transform'' then Inr (A_transform (transform s))
         else Inr (A_member name)))
   \<and> Inr (A_extra PNone) \<noteq> (Inl (AttributeError name) :: error + attribute)"
  by (auto simp add: access_def found_normally_def Shape_getattr_def map_of_eq_None_iff [symmetric]
        simp del: map_of_eq_None_iff split: option.splits)

theorem getattr_undeclared_or_null_witness:
  "\<not> found_normally (object_names @ Circle_fields) ''fill''
   \<and> ''fill'' \<notin> set (map fst [(''cx'', PNum (PInt 0)), (''cy'', PNum (PInt 0)),
                               (''r'', PNum (PInt 100)), (''stroke'', PNone)])
   \<and> access (object_names @ Circle_fields)
        (Shape ''circle'' None [(''cx'', PNum (PInt 0)), (''cy'', PNum (PInt 0)),
                               (''r'', PNum (PInt 100)), (''stroke'', PNone)] None) ''fill''
       = Inl (AttributeError ''fill'')
   \<and> \<not> found_normally (object_names @ Circle_fields) ''stroke''
   \<and> \<not> startswith ''stroke'' ''_''
   \<and> access (object_names @ Circle_fields)
        (Shape ''circle'' None [(''cx'', PNum (PInt 0)), (''cy'', PNum (PInt 0)),
                               (''r'', PNum (PInt 100)), (''stroke'', PNone)] None) ''stroke''
       = Inr (A_extra PNone)
   \<and> found_normally (object_names @ Circle_fields) ''_svg''
   \<and> access (object_names @ Circle_fields)
        (Shape ''circle'' None [(''cx'', PNum (PInt 0)), (''cy'', PNum (PInt 0)),
                               (''r'', PNum (PInt 100)), (''stroke'', PNone)] None) ''_svg''
       = Inr (A_member ''_svg'')
   \<and> Circle (Point (PInt 0) (PInt 0)) (PInt 100) None None [(''stroke'', PNone)]
       = Inr (Shape ''circle'' None [(''cx'', PNum (PInt 0)), (''cy'', PNum (PInt 0)),
                                    (''r'', PNum (PInt 100)), (''stroke'', PNone)] None)"
proof -
  let ?s = "Shape ''circle'' None [(''cx'', PNum (PInt 0)), (''cy'', PNum (PInt 0)),
                               (''r'', PNum (PInt 100)), (''stroke'', PNone)] None"
  let ?o = "object_names @ Circle_fields"
  have n: "\<not> found_normally ?o ''fill''" "\<not> found_normally ?o ''stroke''" "found_normally ?o ''_svg''"
    by code_simp+
  have k: "''fill'' \<notin> set (map fst (attrs ?s))" "map_of (attrs ?s) ''stroke'' = Some PNone"
    "\<not> startswith ''stroke'' ''_''"
    by (simp_all add: startswith_def)
  have c: "Circle (Point (PInt 0) (PInt 0)) (PInt 100) None None [(''stroke'', PNone)] = Inr ?s"
    by code_simp
  have a1: "access ?o ?s ''fill'' = Inl (AttributeError ''fill'')"
    using getattr_undeclared_or_null [of ?o "''fill''" ?s] n(1) k(1) by blast
  have a2: "access ?o ?s ''stroke'' = Inr (A_extra PNone)"
    using getattr_undeclared_or_null [of ?o "''stroke''" ?s PNone] n(2) k(2,3) by blast
  have a3: "access ?o ?s ''_svg'' = Inr (A_member ''_svg'')"
    using getattr_undeclared_or_null [of ?o "''_svg''" ?s] n(3) by simp
  from n k(1,3) c a1 a2 a3 show ?thesis by simp
qed

subsection \<open>Serializing a rotation\<close>

lemma point_eq_origin: "point_eq p origin = (num_val (px p) = 0 \<and> num_val (py p) = 0)"
  by (auto simp add: point_eq_def origin_def num_eq_def)

text \<open>
  C8: \<open>Rotate\<close> serializes to the single-argument form when its anchor equals the origin
  (both coordinates are zero, as int or float) and to the three-argument form with the
  anchor's coordinates otherwise; \<open>Rotate(45)\<close> gives \<open>rotate(45)\<close> and
  \<open>Rotate(45, anchor=Point(10, 10))\<close> gives \<open>rotate(45 10 10)\<close>.
\<close>

theorem rotate_as_str_forms:
  "(point_eq anchor origin \<longrightarrow>
      as_str fr (Rotate_init angle (Some anchor)) = Inr (''rotate('' @ str_num fr angle @ '')''))
   \<and> (\<not> point_eq anchor origin \<longrightarrow>
      as_str fr (Rotate_init angle (Some anchor)) =
        Inr (''rotate('' @ str_num fr angle @ '' '' @ str_num fr (px anchor) @ '' ''
             @ str_num fr (py anchor) @ '')''))
   \<and> point_eq anchor origin = (num_val (px anchor) = 0 \<and> num_val (py anchor) = 0)
   \<and> as_str fr (Rotate_init angle None) = Inr (''rotate('' @ str_num fr angle @ '')'')
   \<and> as_str fr (Rotate_init (PInt 45) None) = Inr ''rotate(45)''
   \<and> as_str fr (Rotate_init (PInt 45) (Some (Point (PInt 10) (PInt 10)))) = Inr ''rotate(45 10 10)''"
  by (simp add: Rotate_init_def point_eq_origin eval_str)
     (simp add: origin_def point_eq_def num_eq_def)

theorem rotate_as_str_forms_witness:
  "point_eq (Point (PFloat 0) (PInt 0)) origin
   \<and> as_str repr_integral (Rotate_init (PInt 45) (Some (Point (PFloat 0) (PInt 0)))) = Inr ''rotate(45)''
   \<and> \<not> point_eq (Point (PInt 10) (PInt 0)) origin
   \<and> as_str repr_integral (Rotate_init (PInt 45) (Some (Point (PInt 10) (PInt 0)))) = Inr ''rotate(45 10 0)''"
  using rotate_as_str_forms [of "Point (PFloat 0) (PInt 0)" repr_integral "PInt 45"]
    rotate_as_str_forms [of "Point (PInt 10) (PInt 0)" repr_integral "PInt 45"]
  by (simp add: point_eq_origin eval_str)

subsection \<open>Cycle and Repeat\<close>

lemma repeat_loop_eq:
  "repeat_loop f k x acc = acc @ map (\<lambda>j. (f ^^ Suc j) x) [0 ..< k]"
proof (induction k arbitrary: x acc)
  case 0
  then show ?case by simp
next
  case (Suc k)
  have "map (\<lambda>j. (f ^^ Suc j) x) [0 ..< Suc k] = f x # map (\<lambda>j. (f ^^ Suc j) (f x)) [0 ..< k]"
    by (simp only: upt_conv_Cons [of 0 "Suc k"] map_Suc_upt [symmetric] list.map map_map comp_def
          funpow_swap1 [symmetric])
       (simp add: funpow_swap1)
  with Suc.IH [of "f x" "acc @ [f x]"] show ?case
    by (simp add: Let_def)
qed

lemma repeat_children:
  assumes "1 \<le> n"
  shows "pipe s (Repeat n t) = Group_of (map (\<lambda>k. ((\<lambda>x. pipe x t) ^^ k) s) [0 ..< nat n])"
proof -
  obtain m where m: "nat n = Suc m" "nat (n - 1) = m"
    using assms by (cases "nat n") (auto simp add: nat_diff_distrib)
  have "s # map (\<lambda>j. ((t_apply t) ^^ Suc j) s) [0 ..< m] = map (\<lambda>k. ((t_apply t) ^^ k) s) [0 ..< Suc m]"
    by (simp only: upt_conv_Cons [of 0 "Suc m"] map_Suc_upt [symmetric] list.map map_map comp_def)
       simp
  then show ?thesis
    using m by (simp add: pipe_def [abs_def] repeat_loop_eq del: upt_Suc funpow.simps)
qed

lemma x_offset_join: "x_offset (join t0 t) = x_offset t0 + x_offset t"
  by (cases t0) simp_all

lemma shape_x_offset_translate:
  "shape_x_offset (pipe s (Translate x y)) = shape_x_offset s + num_val x"
  by (simp add: shape_x_offset_def pipe_def Transformation_apply_def apply_transform_def clone_def
        set_transform_def t_or_def x_offset_join split: option.splits)

text \<open>
  C4: for \<open>n \<ge> 1\<close>, \<open>s | Repeat(n, t)\<close> is a group of \<open>n\<close> members, in generation order:
  the shape itself, then \<open>t\<close> applied once, twice, ..., \<open>n - 1\<close> times. For
  \<open>Repeat(3, Translate(10, 0))\<close> these are the shape with no, one and two translations by
  10 along x attached, at x-offsets 0, 10 and 20 from the shape's own.
\<close>

theorem repeat_collects_generations:
  "1 \<le> n \<Longrightarrow>
     pipe s (Repeat n t) = Group_of (map (\<lambda>k. ((\<lambda>x. pipe x t) ^^ k) s) [0 ..< nat n])
   \<and> children (pipe s (Repeat n t)) = Some (map (\<lambda>k. ((\<lambda>x. pipe x t) ^^ k) s) [0 ..< nat n])
   \<and> map_option (\<lambda>cs. int (length cs)) (children (pipe s (Repeat n t))) = Some n
   \<and> children (pipe s (Repeat 3 (Translate (PInt 10) (PInt 0)))) =
       Some [s, pipe s (Translate (PInt 10) (PInt 0)),
             pipe (pipe s (Translate (PInt 10) (PInt 0))) (Translate (PInt 10) (PInt 0))]
   \<and> map shape_x_offset
         [s, pipe s (Translate (PInt 10) (PInt 0)),
          pipe (pipe s (Translate (PInt 10) (PInt 0))) (Translate (PInt 10) (PInt 0))]
       = [shape_x_offset s, shape_x_offset s + 10, shape_x_offset s + 20]"
proof -
  assume n: "1 \<le> n"
  have three: "pipe s (Repeat 3 (Translate (PInt 10) (PInt 0))) =
      Group_of [s, pipe s (Translate (PInt 10) (PInt 0)),
             pipe (pipe s (Translate (PInt 10) (PInt 0))) (Translate (PInt 10) (PInt 0))]"
    by (simp add: pipe_def numeral_eq_Suc Let_def)
  show ?thesis
    using n by (simp add: repeat_children [OF n] three shape_x_offset_translate)
               (simp add: Group_of_def Shape_init_def)
qed

theorem repeat_collects_generations_witness:
  "(1::int) \<le> 3
   \<and> children (pipe Circle_default (Repeat 3 (Translate (PInt 10) (PInt 0)))) =
       Some [Shape ''circle'' None [(''cx'', PNum (PInt 0)), (''cy'', PNum (PInt 0)), (''r'', PNum (PInt 100))]
               None,
             Shape ''circle'' None [(''cx'', PNum (PInt 0)), (''cy'', PNum (PInt 0)), (''r'', PNum (PInt 100))]
               (Some (Translate (PInt 10) (PInt 0))),
             Shape ''circle'' None [(''cx'', PNum (PInt 0)), (''cy'', PNum (PInt 0)), (''r'', PNum (PInt 100))]
               (Some (TransformationList [Translate (PInt 10) (PInt 0), Translate (PInt 10) (PInt 0)]))]
   \<and> as_str repr_integral (TransformationList [Translate (PInt 10) (PInt 0), Translate (PInt 10) (PInt 0)])
       = Inr ''translate(10 0) translate(10 0)''"
proof -
  have three: "(1::int) \<le> 3" by simp
  have c: "children (pipe Circle_default (Repeat 3 (Translate (PInt 10) (PInt 0)))) =
       Some [Circle_default, pipe Circle_default (Translate (PInt 10) (PInt 0)),
             pipe (pipe Circle_default (Translate (PInt 10) (PInt 0))) (Translate (PInt 10) (PInt 0))]"
    using repeat_collects_generations [OF three, of Circle_default "Translate (PInt 10) (PInt 0)"] by blast
  show ?thesis
    unfolding c
    by (simp add: pipe_def Transformation_apply_def apply_transform_def clone_def set_transform_def
        t_or_def Circle_default_def Circle_of_def Shape_init_def eval_str)
qed

text \<open>
  C6, as stated, fails on the code: \<open>Cycle(n=0)\<close> yields no container, its constructor
  divides 360 by zero; and where both yield one the policies differ, \<open>Repeat(0, t)\<close>
  giving one member and \<open>Cycle(n=0, angle=10)\<close> none.
\<close>

theorem repeat_cycle_zero_counterexample:
  "Cycle_init 0 (Point (PInt 0) (PInt 0)) None None = Inl ZeroDivisionError
   \<and> map_option length (children (pipe Circle_default (Repeat 0 (Translate (PInt 10) (PInt 0))))) = Some 1
   \<and> Cycle_init 0 (Point (PInt 0) (PInt 0)) None (Some (PInt 10))
       = Inr (Cycle 0 (PInt 10) (Point (PInt 0) (PInt 0)) None)
   \<and> map_option length (children (pipe Circle_default (Cycle 0 (PInt 10) (Point (PInt 0) (PInt 0)) None)))
       = Some 0"
  by (simp add: pipe_def Group_of_def Shape_init_def Cycle_init_def int_truediv_def cycle_rotations_def)

text \<open>
  C6, amended: for \<open>n = 0\<close>, \<open>Repeat(0, t)\<close> applied to a shape yields a container whose
  single member is that shape; \<open>Cycle(n=0)\<close> with the default angle raises a division by
  zero when it is constructed; \<open>Cycle(n=0, angle=a)\<close> with an explicit angle yields an
  empty container.
\<close>

theorem repeat_cycle_zero:
  "children (pipe s (Repeat 0 t)) = Some [s]
   \<and> Cycle_init 0 anchor sc None = Inl ZeroDivisionError
   \<and> Cycle_init 0 anchor sc (Some a) = Inr (Cycle 0 a anchor sc)
   \<and> children (pipe s (Cycle 0 a anchor sc)) = Some []"
  by (simp add: pipe_def Group_of_def Shape_init_def Cycle_init_def int_truediv_def cycle_rotations_def
        cycle_scales_def split: option.split)

theorem repeat_cycle_zero_witness:
  "svg repr_integral (pipe Circle_default (Repeat 0 (Rotate (PInt 90) origin))) [] =
     Inr (''<g>'' @ [CHR 0x0A] @ ''  <circle cx='' @ dq @ ''0'' @ dq @ '' cy='' @ dq @ ''0'' @ dq
          @ '' r='' @ dq @ ''100'' @ dq @ '' />'' @ [CHR 0x0A] @ ''</g>'' @ [CHR 0x0A])
   \<and> svg repr_integral (pipe Circle_default (Cycle 0 (PInt 10) origin (Some (PInt 2)))) [] =
     Inr (''<g />'' @ [CHR 0x0A])"
proof -
  have c: "children (pipe Circle_default (Repeat 0 (Rotate (PInt 90) origin))) = Some [Circle_default]"
    and d: "children (pipe Circle_default (Cycle 0 (PInt 10) origin (Some (PInt 2)))) = Some []"
    using repeat_cycle_zero [of Circle_default "Rotate (PInt 90) origin" origin "Some (PInt 2)" "PInt 10"]
    by blast+
  have r: "pipe Circle_default (Repeat 0 (Rotate (PInt 90) origin)) = Shape ''g'' (Some [Circle_default]) [] None"
    using c by (simp add: pipe_def Group_of_def Shape_init_def)
  have y: "pipe Circle_default (Cycle 0 (PInt 10) origin (Some (PInt 2))) = Shape ''g'' (Some []) [] None"
    using d by (simp add: pipe_def Group_of_def Shape_init_def)
  show ?thesis
    unfolding r y
    by (simp add: Circle_default_def Circle_of_def Shape_init_def get_attrs_def call_render_tag_def
        render_tag_def render_items_def replace_underscore_def html_escape_def eval_str)
qed

subsection \<open>Composition of transformations\<close>

lemma join_components: "join a b = TransformationList (components a @ [b])"
  by (cases a) simp_all

lemma as_str_list: "as_str fr (TransformationList ts) = joined (map (as_str fr) ts)"
  by (simp add: joined_def)

lemma join_results_length: "join_results rs = Inr xs \<Longrightarrow> length xs = length rs"
proof (induction rs arbitrary: xs rule: join_results.induct)
  case 1
  then show ?case by simp
next
  case (2 e rs)
  then show ?case by simp
next
  case (3 x rs)
  then show ?case by (auto split: sum.splits)
qed

lemma joined_single: "joined [r] = r"
  by (cases r) (simp_all add: joined_def)

lemma joined_Cons: "rs \<noteq> [] \<Longrightarrow> joined (r # rs) = both r (joined rs)"
proof (cases r)
  case (Inl e)
  then show ?thesis by (simp add: joined_def both_def)
next
  case (Inr a)
  assume ne: "rs \<noteq> []"
  show ?thesis
  proof (cases "join_results rs")
    case (Inl e)
    with Inr show ?thesis by (simp add: joined_def both_def)
  next
    case (Inr xs)
    with ne join_results_length [OF Inr] obtain y ys where "xs = y # ys"
      by (cases xs) auto
    with Inr \<open>r = Inr a\<close> show ?thesis by (simp add: joined_def both_def)
  qed
qed

lemma both_assoc: "both x (both y z) = both (both x y) z"
  by (simp add: both_def split: sum.splits)

lemma joined_snoc: "rs \<noteq> [] \<Longrightarrow> joined (rs @ [r]) = both (joined rs) r"
proof (induction rs)
  case Nil
  then show ?case by simp
next
  case (Cons x rs)
  show ?case
  proof (cases "rs = []")
    case True
    then show ?thesis by (simp add: joined_Cons joined_single)
  next
    case False
    with Cons.IH show ?thesis by (simp add: joined_Cons both_assoc)
  qed
qed

lemma joined_nest: "joined (rs @ [both r1 r2]) = joined (rs @ [r1, r2])"
proof (induction rs)
  case Nil
  show ?case by (simp add: joined_Cons joined_single)
next
  case (Cons x rs)
  then show ?case by (simp add: joined_Cons)
qed

lemma as_str_join:
  assumes "t1 \<noteq> TransformationList []"
  shows "as_str fr (join t1 t2) = both (as_str fr t1) (as_str fr t2)"
proof (cases "\<exists>ts. t1 = TransformationList ts")
  case True
  then obtain ts where ts: "t1 = TransformationList ts" by blast
  with assms have "map (as_str fr) ts \<noteq> []" by simp
  from joined_snoc [OF this, of "as_str fr t2"] ts show ?thesis
    by (simp add: joined_def)
next
  case False
  then have "join t1 t2 = TransformationList [t1, t2]" by (cases t1) simp_all
  then show ?thesis
    by (simp only: as_str_list list.map joined_Cons joined_single not_Cons_self2 simp_thms)
qed

lemma as_str_join_assoc:
  assumes "t1 \<noteq> TransformationList []"
  shows "as_str fr (join (join t0 t1) t2) = as_str fr (join t0 (join t1 t2))"
proof -
  have "as_str fr (join (join t0 t1) t2) = joined (map (as_str fr) (components t0) @ [as_str fr t1, as_str fr t2])"
    by (simp add: join_components as_str_list del: as_str.simps)
  moreover have "as_str fr (join t0 (join t1 t2)) =
      joined (map (as_str fr) (components t0) @ [both (as_str fr t1) (as_str fr t2)])"
    using as_str_join [OF assms, of fr t2]
    by (simp add: join_components [of t0] as_str_list del: as_str.simps)
  ultimately show ?thesis by (simp add: joined_nest)
qed

lemma svg_cong_transform:
  assumes "tag s1 = tag s2" "children s1 = children s2" "attrs s1 = attrs s2"
    and "map_option (as_str fr) (transform s1) = map_option (as_str fr) (transform s2)"
  shows "svg fr s1 indent = svg fr s2 indent"
proof -
  have "get_attrs fr s1 = get_attrs fr s2"
    using assms by (cases "transform s1"; cases "transform s2") (auto simp add: get_attrs_def split: sum.splits)
  with assms(1,2) show ?thesis
    by (cases s1; cases s2) simp
qed

lemma pipe_basic: "\<not> higher_order t \<Longrightarrow> pipe s t = apply_transform s t"
  by (cases t) (simp_all add: pipe_def higher_order_def Transformation_apply_def)

lemma higher_order_join: "\<not> higher_order (join a b)"
  by (simp add: join_components higher_order_def)

lemma apply_transform_fields:
  "tag (apply_transform s t) = tag s" "children (apply_transform s t) = children s"
  "attrs (apply_transform s t) = attrs s"
  "transform (apply_transform s t) = Some (case transform s of Some t0 \<Rightarrow> join t0 t | None \<Rightarrow> t)"
  by (simp_all add: apply_transform_def clone_def set_transform_def t_or_def Let_def split: option.splits)

lemma chained_svg:
  assumes "\<not> higher_order t1" "\<not> higher_order t2"
    and "t1 \<noteq> TransformationList [] \<or> transform s = None"
  shows "svg fr (pipe (pipe s t1) t2) indent = svg fr (pipe s (t_or t1 t2)) indent"
proof -
  have l: "pipe (pipe s t1) t2 = apply_transform (apply_transform s t1) t2"
    using assms(1,2) by (simp add: pipe_basic)
  have r: "pipe s (t_or t1 t2) = apply_transform s (join t1 t2)"
    by (simp add: pipe_basic higher_order_join t_or_def)
  have "map_option (as_str fr) (transform (apply_transform (apply_transform s t1) t2))
      = map_option (as_str fr) (transform (apply_transform s (join t1 t2)))"
  proof (cases "transform s")
    case None
    then show ?thesis by (simp add: apply_transform_fields)
  next
    case (Some t0)
    with assms(3) have "t1 \<noteq> TransformationList []" by simp
    from as_str_join_assoc [OF this, of fr t0 t2] Some show ?thesis
      by (simp add: apply_transform_fields)
  qed
  then show ?thesis
    unfolding l r by (intro svg_cong_transform) (simp_all add: apply_transform_fields)
qed

lemma render_cong: "svg fr a ''  '' = svg fr b ''  '' \<Longrightarrow> render fr [a] w h = render fr [b] w h"
  by (simp add: render_def)

lemma get_attrs_cong:
  assumes "attrs s1 = attrs s2"
    and "map_option (as_str fr) (transform s1) = map_option (as_str fr) (transform s2)"
  shows "get_attrs fr s1 = get_attrs fr s2"
  using assms by (cases "transform s1"; cases "transform s2") (auto simp add: get_attrs_def split: sum.splits)

text \<open>
  C1, as stated, fails on the code, in two ways. A higher-order transformation composes
  into a list that cannot be serialized: chained, \<open>Translate\<close> then \<open>Repeat\<close> gives a
  group of two circles, pre-composed it gives a shape whose rendering raises. And an
  empty \<open>TransformationList\<close> applied to a shape that carries a transform leaves an empty
  entry behind, so the chained text has two spaces where the pre-composed one has one.
\<close>

theorem composition_counterexample:
  "svg repr_integral
      (pipe (pipe Circle_default (Translate (PInt 10) (PInt 0))) (Repeat 2 (Rotate (PInt 90) origin))) []
     = Inr (''<g>'' @ [CHR 0x0A]
            @ ''  <circle cx='' @ dq @ ''0'' @ dq @ '' cy='' @ dq @ ''0'' @ dq @ '' r='' @ dq @ ''100'' @ dq
            @ '' transform='' @ dq @ ''translate(10 0)'' @ dq @ '' />'' @ [CHR 0x0A]
            @ ''  <circle cx='' @ dq @ ''0'' @ dq @ '' cy='' @ dq @ ''0'' @ dq @ '' r='' @ dq @ ''100'' @ dq
            @ '' transform='' @ dq @ ''translate(10 0) rotate(90)'' @ dq @ '' />'' @ [CHR 0x0A]
            @ ''</g>'' @ [CHR 0x0A])
   \<and> svg repr_integral
      (pipe Circle_default (t_or (Translate (PInt 10) (PInt 0)) (Repeat 2 (Rotate (PInt 90) origin)))) []
     = Inl (AttributeError ''as_str'')
   \<and> svg repr_integral
      (pipe (pipe (pipe Circle_default (Translate (PInt 1) (PInt 0))) (TransformationList []))
         (Rotate (PInt 90) origin)) []
     = Inr (''<circle cx='' @ dq @ ''0'' @ dq @ '' cy='' @ dq @ ''0'' @ dq @ '' r='' @ dq @ ''100'' @ dq
            @ '' transform='' @ dq @ ''translate(1 0)  rotate(90)'' @ dq @ '' />'' @ [CHR 0x0A])
   \<and> svg repr_integral
      (pipe (pipe Circle_default (Translate (PInt 1) (PInt 0)))
         (t_or (TransformationList []) (Rotate (PInt 90) origin))) []
     = Inr (''<circle cx='' @ dq @ ''0'' @ dq @ '' cy='' @ dq @ ''0'' @ dq @ '' r='' @ dq @ ''100'' @ dq
            @ '' transform='' @ dq @ ''translate(1 0) rotate(90)'' @ dq @ '' />'' @ [CHR 0x0A])
   \<and> svg repr_integral
      (pipe (pipe Circle_default (Translate (PInt 10) (PInt 0))) (Repeat 2 (Rotate (PInt 90) origin))) []
     \<noteq> svg repr_integral
      (pipe Circle_default (t_or (Translate (PInt 10) (PInt 0)) (Repeat 2 (Rotate (PInt 90) origin)))) []
   \<and> svg repr_integral
      (pipe (pipe (pipe Circle_default (Translate (PInt 1) (PInt 0))) (TransformationList []))
         (Rotate (PInt 90) origin)) []
     \<noteq> svg repr_integral
      (pipe (pipe Circle_default (Translate (PInt 1) (PInt 0)))
         (t_or (TransformationList []) (Rotate (PInt 90) origin))) []"
  by code_simp

text \<open>
  C1, amended: for every shape \<open>s\<close> and transformations \<open>t1\<close>, \<open>t2\<close> that are a
  \<open>Translate\<close>, \<open>Rotate\<close>, \<open>Scale\<close> or \<open>TransformationList\<close> (not the higher-order
  \<open>Repeat\<close> or \<open>Cycle\<close>), where \<open>t1\<close> is not the empty list or \<open>s\<close> carries no transform
  yet, applying \<open>t1 | t2\<close> to \<open>s\<close> is observably identical to applying \<open>t1\<close> and then
  \<open>t2\<close>: the same attributes with the same transform text, the same rendering, errors
  included. In particular \<open>render(s | Translate(10,0) | Rotate(90))\<close> equals
  \<open>render(s | (Translate(10,0) | Rotate(90)))\<close> for every shape.
\<close>

theorem chained_equals_precomposed:
  "\<not> higher_order t1 \<Longrightarrow> \<not> higher_order t2 \<Longrightarrow>
   t1 \<noteq> TransformationList [] \<or> transform s = None \<Longrightarrow>
     svg fr (pipe (pipe s t1) t2) indent = svg fr (pipe s (t_or t1 t2)) indent
   \<and> get_attrs fr (pipe (pipe s t1) t2) = get_attrs fr (pipe s (t_or t1 t2))
   \<and> render fr [pipe (pipe s t1) t2] w h = render fr [pipe s (t_or t1 t2)] w h
   \<and> render fr [pipe (pipe s (Translate (PInt 10) (PInt 0))) (Rotate_init (PInt 90) None)] w h
       = render fr [pipe s (t_or (Translate (PInt 10) (PInt 0)) (Rotate_init (PInt 90) None))] w h"
proof -
  assume a: "\<not> higher_order t1" "\<not> higher_order t2"
    and b: "t1 \<noteq> TransformationList [] \<or> transform s = None"
  have tr: "map_option (as_str fr) (transform (pipe (pipe s t1) t2))
      = map_option (as_str fr) (transform (pipe s (t_or t1 t2)))"
  proof (cases "transform s")
    case None
    then show ?thesis
      using a by (simp add: pipe_basic higher_order_join t_or_def apply_transform_fields)
  next
    case (Some t0)
    with b have "t1 \<noteq> TransformationList []" by simp
    from as_str_join_assoc [OF this, of fr t0 t2] Some show ?thesis
      using a by (simp add: pipe_basic higher_order_join t_or_def apply_transform_fields)
  qed
  have at: "attrs (pipe (pipe s t1) t2) = attrs (pipe s (t_or t1 t2))"
    using a by (simp add: pipe_basic higher_order_join t_or_def apply_transform_fields)
  have ex: "\<not> higher_order (Translate (PInt 10) (PInt 0))" "\<not> higher_order (Rotate_init (PInt 90) None)"
    "Translate (PInt 10) (PInt 0) \<noteq> TransformationList []"
    by (simp_all add: higher_order_def Rotate_init_def)
  show ?thesis
    using chained_svg [OF a b, where fr = fr] get_attrs_cong [OF at tr]
      chained_svg [OF ex(1,2) disjI1 [OF ex(3)], where s = s and fr = fr and indent = "''  ''"]
    by (simp add: render_def)
qed

theorem chained_equals_precomposed_witness:
  "\<not> higher_order (Translate (PInt 10) (PInt 0)) \<and> \<not> higher_order (Rotate (PInt 90) origin)
   \<and> Translate (PInt 10) (PInt 0) \<noteq> TransformationList []
   \<and> svg repr_integral
       (pipe (pipe (pipe Circle_default (Scale (PInt 2) (PInt 2))) (Translate (PInt 10) (PInt 0)))
          (Rotate (PInt 90) origin)) []
     = svg repr_integral
       (pipe (pipe Circle_default (Scale (PInt 2) (PInt 2)))
          (t_or (Translate (PInt 10) (PInt 0)) (Rotate (PInt 90) origin))) []
   \<and> svg repr_integral
       (pipe (pipe Circle_default (Scale (PInt 2) (PInt 2)))
          (t_or (Translate (PInt 10) (PInt 0)) (Rotate (PInt 90) origin))) []
     = Inr (''<circle cx='' @ dq @ ''0'' @ dq @ '' cy='' @ dq @ ''0'' @ dq @ '' r='' @ dq @ ''100'' @ dq
            @ '' transform='' @ dq @ ''scale(2 2) translate(10 0) rotate(90)'' @ dq @ '' />'' @ [CHR 0x0A])"
proof -
  have a: "\<not> higher_order (Translate (PInt 10) (PInt 0))" "\<not> higher_order (Rotate (PInt 90) origin)"
    and b: "Translate (PInt 10) (PInt 0) \<noteq> TransformationList []"
    by (simp_all add: higher_order_def)
  have e: "svg repr_integral
       (pipe (pipe (pipe Circle_default (Scale (PInt 2) (PInt 2))) (Translate (PInt 10) (PInt 0)))
          (Rotate (PInt 90) origin)) []
     = svg repr_integral
       (pipe (pipe Circle_default (Scale (PInt 2) (PInt 2)))
          (t_or (Translate (PInt 10) (PInt 0)) (Rotate (PInt 90) origin))) []"
    using chained_equals_precomposed [OF a disjI1 [OF b]] by blast
  have v: "svg repr_integral
       (pipe (pipe Circle_default (Scale (PInt 2) (PInt 2)))
          (t_or (Translate (PInt 10) (PInt 0)) (Rotate (PInt 90) origin))) []
     = Inr (''<circle cx='' @ dq @ ''0'' @ dq @ '' cy='' @ dq @ ''0'' @ dq @ '' r='' @ dq @ ''100'' @ dq
            @ '' transform='' @ dq @ ''scale(2 2) translate(10 0) rotate(90)'' @ dq @ '' />'' @ [CHR 0x0A])"
    by code_simp
  from a b e v show ?thesis by blast
qed

subsection \<open>A cycle of four\<close>

lemma as_str_rotate_origin: "as_str fr (Rotate a origin) = Inr (''rotate('' @ str_num fr a @ '')'')"
  by (simp add: origin_def point_eq_def num_eq_def)

lemma rotated_shape:
  "pipe s (Rotate a origin) =
     Shape (tag s) (children s) (attrs s)
       (Some (case transform s of
                None \<Rightarrow> Rotate a origin
              | Some t0 \<Rightarrow> TransformationList (components t0 @ [Rotate a origin])))"
  by (simp add: pipe_def Transformation_apply_def apply_transform_def clone_def set_transform_def
        t_or_def join_components Let_def split: option.splits)

lemma rotated_attrs:
  "get_attrs fr (pipe s (Rotate a origin)) =
     (case (case transform s of
              None \<Rightarrow> as_str fr (Rotate a origin)
            | Some t0 \<Rightarrow> as_str fr (join t0 (Rotate a origin))) of
        Inl e \<Rightarrow> Inl e
      | Inr text \<Rightarrow> Inr (dict_set ''transform'' (PStr text) (attrs s)))"
  by (cases "transform s")
     (auto simp add: get_attrs_def pipe_def Transformation_apply_def apply_transform_fields
        simp del: as_str.simps split: sum.splits)

text \<open>
  C3: \<open>Cycle(n=4)\<close> resolves its angle to \<open>360/4 = 90.0\<close>, and applied to any shape it
  gives a group of exactly four children, the k-th being the shape rotated by
  \<open>k * 90\<close> degrees around the origin: the shape's tag, children and attributes, with a
  transform that is the rotation alone or, for a shape that carries a transform, that
  transform followed by the rotation, and so reads the transform attribute. The first
  child is rotated by zero degrees.
\<close>

theorem cycle_four_children:
  "Cycle_init 4 origin None None = Inr (Cycle 4 (PFloat 90) origin None)
   \<and> pipe s (Cycle 4 (PFloat 90) origin None) =
       Group_of (map (\<lambda>k. pipe s (Rotate (PFloat (of_nat k * 90)) origin)) [0 ..< 4])
   \<and> children (pipe s (Cycle 4 (PFloat 90) origin None)) =
       Some [pipe s (Rotate (PFloat 0) origin), pipe s (Rotate (PFloat 90) origin),
             pipe s (Rotate (PFloat 180) origin), pipe s (Rotate (PFloat 270) origin)]
   \<and> map_option length (children (pipe s (Cycle 4 (PFloat 90) origin None))) = Some 4
   \<and> pipe s (Rotate a origin) =
       Shape (tag s) (children s) (attrs s)
         (Some (case transform s of
                  None \<Rightarrow> Rotate a origin
                | Some t0 \<Rightarrow> TransformationList (components t0 @ [Rotate a origin])))
   \<and> (transform s = None \<longrightarrow>
        get_attrs fr (pipe s (Rotate a origin)) =
          Inr (dict_set ''transform'' (PStr (''rotate('' @ str_num fr a @ '')'')) (attrs s)))
   \<and> (transform s = Some (TransformationList []) \<longrightarrow>
        get_attrs fr (pipe s (Rotate a origin)) =
          Inr (dict_set ''transform'' (PStr (''rotate('' @ str_num fr a @ '')'')) (attrs s)))
   \<and> (transform s = Some t0 \<and> t0 \<noteq> TransformationList [] \<and> as_str fr t0 = Inr txt \<longrightarrow>
        get_attrs fr (pipe s (Rotate a origin)) =
          Inr (dict_set ''transform'' (PStr (txt @ '' rotate('' @ str_num fr a @ '')'')) (attrs s)))
   \<and> (transform s = Some t0 \<and> t0 \<noteq> TransformationList [] \<and> as_str fr t0 = Inl e \<longrightarrow>
        get_attrs fr (pipe s (Rotate a origin)) = Inl e)"
proof -
  have four: "Cycle_init 4 origin None None = Inr (Cycle 4 (PFloat 90) origin None)
   \<and> pipe s (Cycle 4 (PFloat 90) origin None) =
       Group_of (map (\<lambda>k. pipe s (Rotate (PFloat (of_nat k * 90)) origin)) [0 ..< 4])
   \<and> children (pipe s (Cycle 4 (PFloat 90) origin None)) =
       Some [pipe s (Rotate (PFloat 0) origin), pipe s (Rotate (PFloat 90) origin),
             pipe s (Rotate (PFloat 180) origin), pipe s (Rotate (PFloat 270) origin)]
   \<and> map_option length (children (pipe s (Cycle 4 (PFloat 90) origin None))) = Some 4"
    apply (simp add: Cycle_init_def int_truediv_def pipe_def cycle_rotations_def Rotate_init_def
        Transformation_apply_def Group_of_def Shape_init_def)
    apply (simp add: upt_rec numeral_eq_Suc)
    done
  have none: "get_attrs fr (pipe s (Rotate a origin)) =
          Inr (dict_set ''transform'' (PStr (''rotate('' @ str_num fr a @ '')'')) (attrs s))"
    if "transform s = None"
    using that by (simp add: rotated_attrs as_str_rotate_origin del: as_str.simps)
  have empty: "get_attrs fr (pipe s (Rotate a origin)) =
          Inr (dict_set ''transform'' (PStr (''rotate('' @ str_num fr a @ '')'')) (attrs s))"
    if "transform s = Some (TransformationList [])"
    using that
    by (simp add: rotated_attrs as_str_list joined_single as_str_rotate_origin del: as_str.simps)
  have some: "get_attrs fr (pipe s (Rotate a origin)) =
          Inr (dict_set ''transform'' (PStr (txt @ '' rotate('' @ str_num fr a @ '')'')) (attrs s))"
    if "transform s = Some t0" "t0 \<noteq> TransformationList []" "as_str fr t0 = Inr txt"
    using that as_str_join [OF that(2), of fr "Rotate a origin"]
    by (simp add: rotated_attrs as_str_rotate_origin both_def del: as_str.simps)
  have err: "get_attrs fr (pipe s (Rotate a origin)) = Inl e"
    if "transform s = Some t0" "t0 \<noteq> TransformationList []" "as_str fr t0 = Inl e"
    using that as_str_join [OF that(2), of fr "Rotate a origin"]
    by (simp add: rotated_attrs both_def del: as_str.simps)
  from four rotated_shape [of s a] none empty some err show ?thesis by blast
qed

theorem cycle_four_children_witness:
  "map (\<lambda>c. svg repr_integral c []) (the (children (pipe Circle_default (Cycle 4 (PFloat 90) origin None)))) =
     [Inr (''<circle cx='' @ dq @ ''0'' @ dq @ '' cy='' @ dq @ ''0'' @ dq @ '' r='' @ dq @ ''100'' @ dq
           @ '' transform='' @ dq @ ''rotate(0.0)'' @ dq @ '' />'' @ [CHR 0x0A]),
      Inr (''<circle cx='' @ dq @ ''0'' @ dq @ '' cy='' @ dq @ ''0'' @ dq @ '' r='' @ dq @ ''100'' @ dq
           @ '' transform='' @ dq @ ''rotate(90.0)'' @ dq @ '' />'' @ [CHR 0x0A]),
      Inr (''<circle cx='' @ dq @ ''0'' @ dq @ '' cy='' @ dq @ ''0'' @ dq @ '' r='' @ dq @ ''100'' @ dq
           @ '' transform='' @ dq @ ''rotate(180.0)'' @ dq @ '' />'' @ [CHR 0x0A]),
      Inr (''<circle cx='' @ dq @ ''0'' @ dq @ '' cy='' @ dq @ ''0'' @ dq @ '' r='' @ dq @ ''100'' @ dq
           @ '' transform='' @ dq @ ''rotate(270.0)'' @ dq @ '' />'' @ [CHR 0x0A])]
   \<and> transform (pipe Circle_default (Translate (PInt 10) (PInt 0))) = Some (Translate (PInt 10) (PInt 0))
   \<and> Translate (PInt 10) (PInt 0) \<noteq> TransformationList []
   \<and> as_str repr_integral (Translate (PInt 10) (PInt 0)) = Inr ''translate(10 0)''
   \<and> get_attrs repr_integral
        (pipe (pipe Circle_default (Translate (PInt 10) (PInt 0))) (Rotate (PFloat 90) origin))
       = Inr [(''cx'', PNum (PInt 0)), (''cy'', PNum (PInt 0)), (''r'', PNum (PInt 100)),
              (''transform'', PStr ''translate(10 0) rotate(90.0)'')]
   \<and> map (\<lambda>c. svg repr_integral c [])
        (the (children (pipe (pipe Circle_default (Translate (PInt 10) (PInt 0)))
                          (Cycle 4 (PFloat 90) origin None)))) =
     [Inr (''<circle cx='' @ dq @ ''0'' @ dq @ '' cy='' @ dq @ ''0'' @ dq @ '' r='' @ dq @ ''100'' @ dq
           @ '' transform='' @ dq @ ''translate(10 0) rotate(0.0)'' @ dq @ '' />'' @ [CHR 0x0A]),
      Inr (''<circle cx='' @ dq @ ''0'' @ dq @ '' cy='' @ dq @ ''0'' @ dq @ '' r='' @ dq @ ''100'' @ dq
           @ '' transform='' @ dq @ ''translate(10 0) rotate(90.0)'' @ dq @ '' />'' @ [CHR 0x0A]),
      Inr (''<circle cx='' @ dq @ ''0'' @ dq @ '' cy='' @ dq @ ''0'' @ dq @ '' r='' @ dq @ ''100'' @ dq
           @ '' transform='' @ dq @ ''translate(10 0) rotate(180.0)'' @ dq @ '' />'' @ [CHR 0x0A]),
      Inr (''<circle cx='' @ dq @ ''0'' @ dq @ '' cy='' @ dq @ ''0'' @ dq @ '' r='' @ dq @ ''100'' @ dq
           @ '' transform='' @ dq @ ''translate(10 0) rotate(270.0)'' @ dq @ '' />'' @ [CHR 0x0A])]"
proof -
  let ?T = "Translate (PInt 10) (PInt 0)"
  let ?s = "pipe Circle_default ?T"
  have c: "children (pipe Circle_default (Cycle 4 (PFloat 90) origin None)) =
       Some [pipe Circle_default (Rotate (PFloat 0) origin), pipe Circle_default (Rotate (PFloat 90) origin),
             pipe Circle_default (Rotate (PFloat 180) origin), pipe Circle_default (Rotate (PFloat 270) origin)]"
    using cycle_four_children [of Circle_default] by blast
  have c': "children (pipe ?s (Cycle 4 (PFloat 90) origin None)) =
       Some [pipe ?s (Rotate (PFloat 0) origin), pipe ?s (Rotate (PFloat 90) origin),
             pipe ?s (Rotate (PFloat 180) origin), pipe ?s (Rotate (PFloat 270) origin)]"
    using cycle_four_children [of ?s] by blast
  have t: "transform ?s = Some ?T" "?T \<noteq> TransformationList []"
    "as_str repr_integral ?T = Inr ''translate(10 0)''"
    by code_simp+
  have g: "get_attrs repr_integral (pipe ?s (Rotate (PFloat 90) origin)) =
      Inr (dict_set ''transform''
             (PStr (''translate(10 0)'' @ '' rotate('' @ str_num repr_integral (PFloat 90) @ '')''))
             (attrs ?s))"
    using cycle_four_children [of ?s "PFloat 90" repr_integral ?T "''translate(10 0)''"] t by blast
  have g': "Inr (dict_set ''transform''
             (PStr (''translate(10 0)'' @ '' rotate('' @ str_num repr_integral (PFloat 90) @ '')''))
             (attrs ?s))
      = (Inr [(''cx'', PNum (PInt 0)), (''cy'', PNum (PInt 0)), (''r'', PNum (PInt 100)),
              (''transform'', PStr ''translate(10 0) rotate(90.0)'')]
         :: error + (string \<times> pyval) list)"
    by code_simp
  have v: "map (\<lambda>c. svg repr_integral c [])
       [pipe Circle_default (Rotate (PFloat 0) origin), pipe Circle_default (Rotate (PFloat 90) origin),
        pipe Circle_default (Rotate (PFloat 180) origin), pipe Circle_default (Rotate (PFloat 270) origin)] =
     [Inr (''<circle cx='' @ dq @ ''0'' @ dq @ '' cy='' @ dq @ ''0'' @ dq @ '' r='' @ dq @ ''100'' @ dq
           @ '' transform='' @ dq @ ''rotate(0.0)'' @ dq @ '' />'' @ [CHR 0x0A]),
      Inr (''<circle cx='' @ dq @ ''0'' @ dq @ '' cy='' @ dq @ ''0'' @ dq @ '' r='' @ dq @ ''100'' @ dq
           @ '' transform='' @ dq @ ''rotate(90.0)'' @ dq @ '' />'' @ [CHR 0x0A]),
      Inr (''<circle cx='' @ dq @ ''0'' @ dq @ '' cy='' @ dq @ ''0'' @ dq @ '' r='' @ dq @ ''100'' @ dq
           @ '' transform='' @ dq @ ''rotate(180.0)'' @ dq @ '' />'' @ [CHR 0x0A]),
      Inr (''<circle cx='' @ dq @ ''0'' @ dq @ '' cy='' @ dq @ ''0'' @ dq @ '' r='' @ dq @ ''100'' @ dq
           @ '' transform='' @ dq @ ''rotate(270.0)'' @ dq @ '' />'' @ [CHR 0x0A])]"
    by code_simp
  have v': "map (\<lambda>c. svg repr_integral c [])
       [pipe ?s (Rotate (PFloat 0) origin), pipe ?s (Rotate (PFloat 90) origin),
        pipe ?s (Rotate (PFloat 180) origin), pipe ?s (Rotate (PFloat 270) origin)] =
     [Inr (''<circle cx='' @ dq @ ''0'' @ dq @ '' cy='' @ dq @ ''0'' @ dq @ '' r='' @ dq @ ''100'' @ dq
           @ '' transform='' @ dq @ ''translate(10 0) rotate(0.0)'' @ dq @ '' />'' @ [CHR 0x0A]),
      Inr (''<circle cx='' @ dq @ ''0'' @ dq @ '' cy='' @ dq @ ''0'' @ dq @ '' r='' @ dq @ ''100'' @ dq
           @ '' transform='' @ dq @ ''translate(10 0) rotate(90.0)'' @ dq @ '' />'' @ [CHR 0x0A]),
      Inr (''<circle cx='' @ dq @ ''0'' @ dq @ '' cy='' @ dq @ ''0'' @ dq @ '' r='' @ dq @ ''100'' @ dq
           @ '' transform='' @ dq @ ''translate(10 0) rotate(180.0)'' @ dq @ '' />'' @ [CHR 0x0A]),
      Inr (''<circle cx='' @ dq @ ''0'' @ dq @ '' cy='' @ dq @ ''0'' @ dq @ '' r='' @ dq @ ''100'' @ dq
           @ '' transform='' @ dq @ ''translate(10 0) rotate(270.0)'' @ dq @ '' />'' @ [CHR 0x0A])]"
    by code_simp
  show ?thesis
    unfolding c c' option.sel v v' using t g g' by simp
qed

subsection \<open>Attributes with the value None\<close>

lemma render_items_drop_none:
  "render_items fr (xs @ (k, PNone) # ys) = render_items fr (xs @ ys)"
  by (simp add: render_items_def)

lemma dict_set_nonempty: "dict_set a v l \<noteq> []"
  by (cases l) (auto split: if_splits)

lemma dict_set_keys: "fst ` set (dict_set a v l) = insert a (fst ` set l)"
  by (induction a v l rule: dict_set.induct) (simp_all add: insert_commute)

lemma render_items_dict_set:
  "k \<noteq> a \<Longrightarrow> render_items fr (dict_set a v (xs @ (k, PNone) # ys)) = render_items fr (dict_set a v (xs @ ys))"
  by (induction xs) (auto simp add: render_items_def)

lemma render_tag_cong:
  "render_items fr A = render_items fr B \<Longrightarrow> (A = []) = (B = []) \<Longrightarrow>
   render_tag fr tg c A = render_tag fr tg c B"
  by (simp add: render_tag_def Let_def)

lemma call_render_tag_cong:
  "render_items fr A = render_items fr B \<Longrightarrow> (A = []) = (B = []) \<Longrightarrow>
   (''close'' \<in> fst ` set A) = (''close'' \<in> fst ` set B) \<Longrightarrow>
   (''tag'' \<in> fst ` set A) = (''tag'' \<in> fst ` set B) \<Longrightarrow>
   call_render_tag fr tg A c = call_render_tag fr tg B c"
  using render_tag_cong [of fr A B tg c] by (simp add: call_render_tag_def)

lemma svg_unfold:
  "svg fr (Shape tg ch ats tr) indent =
     (case get_attrs fr (Shape tg ch ats tr) of
        Inl e \<Rightarrow> Inl e
      | Inr a \<Rightarrow>
          (if ch = None \<or> ch = Some [] then
             (case call_render_tag fr tg a True of
                  Inl e \<Rightarrow> Inl e
                | Inr tag_text \<Rightarrow> Inr (indent @ tag_text @ [CHR 0x0A]))
           else
               (case call_render_tag fr tg a False of
                  Inl e \<Rightarrow> Inl e
                | Inr tag_text \<Rightarrow>
                    (case concat_results (map (\<lambda>c'. svg fr c' (indent @ ''  '')) (the ch)) of
                       Inl e \<Rightarrow> Inl e
                     | Inr inner \<Rightarrow>
                         Inr (indent @ tag_text @ [CHR 0x0A] @ inner @ indent @ ''</'' @ tg @ ''>'' @ [CHR 0x0A])))))"
  by (cases ch; cases "the ch") (auto split: sum.splits)

lemma none_attribute_same_text:
  assumes "k \<noteq> ''close''" "k \<noteq> ''tag''" "k \<noteq> ''transform''"
    and "xs @ ys \<noteq> [] \<or> tr \<noteq> None"
  shows "svg fr (Shape tg ch (xs @ (k, PNone) # ys) tr) indent = svg fr (Shape tg ch (xs @ ys) tr) indent"
proof (cases tr)
  case None
  with assms(4) have ne: "xs @ ys \<noteq> []" by simp
  have "call_render_tag fr tg (xs @ (k, PNone) # ys) c = call_render_tag fr tg (xs @ ys) c" for c
    using assms(1,2) ne by (intro call_render_tag_cong) (auto simp add: render_items_drop_none)
  with None show ?thesis by (simp add: svg_unfold get_attrs_def del: svg.simps)
next
  case (Some t)
  have "call_render_tag fr tg (dict_set ''transform'' v (xs @ (k, PNone) # ys)) c
      = call_render_tag fr tg (dict_set ''transform'' v (xs @ ys)) c" for c v
    using assms(1,2,3)
    by (intro call_render_tag_cong) (auto simp add: render_items_dict_set dict_set_nonempty dict_set_keys)
  then show ?thesis
    using Some by (cases "as_str fr t") (simp_all add: svg_unfold get_attrs_def del: svg.simps)
qed

text \<open>
  C7, as stated, fails on the code: the attribute is dropped, but its name can still occur
  in the text. \<open>Circle(stroke=None, stroke_width=2)\<close> renders no \<open>stroke\<close> attribute,
  and the text contains \<open>stroke\<close> inside \<open>stroke-width\<close>.
\<close>

theorem none_attribute_name_counterexample:
  "built_svg repr_integral
       (Circle (Point (PInt 0) (PInt 0)) (PInt 100) None None
          [(''stroke'', PNone), (''stroke_width'', PNum (PInt 2))]) []
     = Inr (''<circle cx='' @ dq @ ''0'' @ dq @ '' cy='' @ dq @ ''0'' @ dq @ '' r='' @ dq @ ''100'' @ dq
            @ '' stroke-width='' @ dq @ ''2'' @ dq @ '' />'' @ [CHR 0x0A])
   \<and> sublist ''stroke''
        (''<circle cx='' @ dq @ ''0'' @ dq @ '' cy='' @ dq @ ''0'' @ dq @ '' r='' @ dq @ ''100'' @ dq
            @ '' stroke-width='' @ dq @ ''2'' @ dq @ '' />'' @ [CHR 0x0A])"
  by code_simp

text \<open>
  C7, amended: for every shape constructed with an extra attribute whose value is None
  (its name not \<open>close\<close>, \<open>tag\<close> or \<open>transform\<close>), the attribute is omitted entirely: no
  name and value pair is rendered for it, not even one with an empty value, and the
  rendered text is exactly that of the same shape without the attribute, provided the
  shape has another attribute or a transform. So it is for a circle, which always has
  attributes of its own, when the name is none that the constructor binds or passes
  itself (\<open>children\<close>, \<open>self\<close>, \<open>center\<close>, \<open>radius\<close>, \<open>cx\<close>, \<open>cy\<close>, \<open>r\<close>): building
  and rendering the circle gives the same text, or the same error, with the attribute and
  without it.
\<close>

theorem none_attribute_omitted:
  "k \<noteq> ''close'' \<Longrightarrow> k \<noteq> ''tag'' \<Longrightarrow> k \<noteq> ''transform'' \<Longrightarrow> xs @ ys \<noteq> [] \<or> tr \<noteq> None \<Longrightarrow>
     svg fr (Shape tg ch (xs @ (k, PNone) # ys) tr) indent = svg fr (Shape tg ch (xs @ ys) tr) indent
   \<and> render_items fr (xs @ (k, PNone) # ys) = render_items fr (xs @ ys)
   \<and> (k \<notin> set [''children'', ''self'', ''center'', ''radius'', ''cx'', ''cy'', ''r''] \<longrightarrow>
        built_svg fr (Circle c r chn t (xs @ (k, PNone) # ys)) indent
          = built_svg fr (Circle c r chn t (xs @ ys)) indent)"
proof -
  assume k: "k \<noteq> ''close''" "k \<noteq> ''tag''" "k \<noteq> ''transform''" and ne: "xs @ ys \<noteq> [] \<or> tr \<noteq> None"
  have circle: "built_svg fr (Circle c r chn t (xs @ (k, PNone) # ys)) indent
          = built_svg fr (Circle c r chn t (xs @ ys)) indent"
    if r: "k \<notin> set [''children'', ''self'', ''center'', ''radius'', ''cx'', ''cy'', ''r'']"
  proof -
    let ?groups = "[[''children'', ''transform''], [''self'', ''center'', ''radius''],
                  [''cx'', ''cy'', ''r''], [''tag'']]"
    let ?own = "[(''cx'', PNum (px c)), (''cy'', PNum (py c)), (''r'', PNum r)]"
    from k r have "k \<notin> \<Union> (set (map set ?groups))" by simp
    then have cl: "clash ?groups (xs @ (k, PNone) # ys) = clash ?groups (xs @ ys)"
      by (rule clash_drop)
    have ne': "(?own @ xs) @ ys \<noteq> [] \<or> (None :: transformation option) \<noteq> None" by simp
    from none_attribute_same_text [OF k ne', of fr "''circle''" chn indent]
    have "svg fr (Shape_init ''circle'' chn t (?own @ xs @ (k, PNone) # ys)) indent
        = svg fr (Shape_init ''circle'' chn t (?own @ xs @ ys)) indent"
      by (simp add: Shape_init_def)
    with cl show ?thesis
      by (simp add: built_svg_def Circle_def split: option.splits)
  qed
  from none_attribute_same_text [OF k ne, of fr tg ch indent] circle show ?thesis
    by (simp add: render_items_drop_none)
qed

theorem none_attribute_omitted_witness:
  "''stroke'' \<noteq> ''close'' \<and> ''stroke'' \<noteq> ''tag'' \<and> ''stroke'' \<noteq> ''transform''
   \<and> ''stroke'' \<notin> set [''children'', ''self'', ''center'', ''radius'', ''cx'', ''cy'', ''r'']
   \<and> built_svg repr_integral
        (Circle (Point (PInt 0) (PInt 0)) (PInt 100) None None
           ([] @ (''stroke'', PNone) # [(''stroke_width'', PNum (PInt 2))])) []
     = built_svg repr_integral
        (Circle (Point (PInt 0) (PInt 0)) (PInt 100) None None
           ([] @ [(''stroke_width'', PNum (PInt 2))])) []
   \<and> built_svg repr_integral
        (Circle (Point (PInt 0) (PInt 0)) (PInt 100) None None [(''stroke_width'', PNum (PInt 2))]) []
     = Inr (''<circle cx='' @ dq @ ''0'' @ dq @ '' cy='' @ dq @ ''0'' @ dq @ '' r='' @ dq @ ''100'' @ dq
            @ '' stroke-width='' @ dq @ ''2'' @ dq @ '' />'' @ [CHR 0x0A])
   \<and> Circle (Point (PInt 0) (PInt 0)) (PInt 100) None None [(''cx'', PNone)] = Inl (TypeError ''cx'')"
proof -
  have k: "''stroke'' \<noteq> ''close''" "''stroke'' \<noteq> ''tag''" "''stroke'' \<noteq> ''transform''"
    and ne: "[] @ [(''stroke_width'', PNum (PInt 2))] \<noteq> [] \<or> (None :: transformation option) \<noteq> None"
    and r: "''stroke'' \<notin> set [''children'', ''self'', ''center'', ''radius'', ''cx'', ''cy'', ''r'']"
    by simp_all
  have e: "built_svg repr_integral
        (Circle (Point (PInt 0) (PInt 0)) (PInt 100) None None
           ([] @ (''stroke'', PNone) # [(''stroke_width'', PNum (PInt 2))])) []
     = built_svg repr_integral
        (Circle (Point (PInt 0) (PInt 0)) (PInt 100) None None
           ([] @ [(''stroke_width'', PNum (PInt 2))])) []"
    using none_attribute_omitted [OF k ne] r by blast
  have v: "built_svg repr_integral
        (Circle (Point (PInt 0) (PInt 0)) (PInt 100) None None [(''stroke_width'', PNum (PInt 2))]) []
     = Inr (''<circle cx='' @ dq @ ''0'' @ dq @ '' cy='' @ dq @ ''0'' @ dq @ '' r='' @ dq @ ''100'' @ dq
            @ '' stroke-width='' @ dq @ ''2'' @ dq @ '' />'' @ [CHR 0x0A])"
    by code_simp
  have x: "Circle (Point (PInt 0) (PInt 0)) (PInt 100) None None [(''cx'', PNone)] = Inl (TypeError ''cx'')"
    by code_simp
  from k r e v x show ?thesis by blast
qed

subsection \<open>Applying a transformation does not change the shape\<close>

lemma denotes_iff:
  "denotes \<sigma> a s =
     (a < length \<sigma> \<and> o_tag (\<sigma> ! a) = tag s \<and> o_attrs (\<sigma> ! a) = attrs s
      \<and> o_transform (\<sigma> ! a) = transform s
      \<and> rel_option (list_all2 (denotes \<sigma>)) (o_children (\<sigma> ! a)) (children s))"
proof
  assume "denotes \<sigma> a s"
  then show "a < length \<sigma> \<and> o_tag (\<sigma> ! a) = tag s \<and> o_attrs (\<sigma> ! a) = attrs s
      \<and> o_transform (\<sigma> ! a) = transform s
      \<and> rel_option (list_all2 (denotes \<sigma>)) (o_children (\<sigma> ! a)) (children s)"
    by cases simp_all
next
  assume r: "a < length \<sigma> \<and> o_tag (\<sigma> ! a) = tag s \<and> o_attrs (\<sigma> ! a) = attrs s
      \<and> o_transform (\<sigma> ! a) = transform s
      \<and> rel_option (list_all2 (denotes \<sigma>)) (o_children (\<sigma> ! a)) (children s)"
  show "denotes \<sigma> a s"
  proof (cases "children s")
    case None
    with r have "\<sigma> ! a = Obj (tag s) None (attrs s) (transform s)"
      by (cases "\<sigma> ! a") auto
    with r have "denotes \<sigma> a (Shape (tag s) None (attrs s) (transform s))"
      by (intro denotes.leaf) simp_all
    with None show ?thesis by (cases s) simp
  next
    case (Some ss)
    with r obtain cs where cs: "o_children (\<sigma> ! a) = Some cs" "list_all2 (denotes \<sigma>) cs ss"
      by (cases "o_children (\<sigma> ! a)") auto
    with r have "\<sigma> ! a = Obj (tag s) (Some cs) (attrs s) (transform s)"
      by (cases "\<sigma> ! a") auto
    with r cs have "denotes \<sigma> a (Shape (tag s) (Some ss) (attrs s) (transform s))"
      by (intro denotes.node) simp_all
    with Some show ?thesis by (cases s) simp
  qed
qed

lemma prefix_nth: "prefix xs ys \<Longrightarrow> i < length xs \<Longrightarrow> ys ! i = xs ! i"
  by (auto simp add: prefix_def nth_append)

lemma denotes_mono: "denotes \<sigma> a s \<Longrightarrow> prefix \<sigma> \<sigma>' \<Longrightarrow> denotes \<sigma>' a s"
proof (induction rule: denotes.induct)
  case (leaf a \<sigma> tg ats tr)
  then show ?case
    using prefix_nth [of \<sigma> \<sigma>' a] prefix_length_le [of \<sigma> \<sigma>'] by (intro denotes.leaf) auto
next
  case (node a \<sigma> tg cs ats tr ss)
  from node.IH node.prems have "list_all2 (denotes \<sigma>') cs ss"
    by (auto elim!: list_all2_mono)
  with node show ?case
    using prefix_nth [of \<sigma> \<sigma>' a] prefix_length_le [of \<sigma> \<sigma>'] by (intro denotes.node) auto
qed

lemma list_all2_unique:
  assumes "list_all2 (\<lambda>c x. P c x \<and> (\<forall>y. P c y \<longrightarrow> x = y)) cs xs" "list_all2 P cs ys"
  shows "xs = ys"
  using assms
proof (induction cs xs arbitrary: ys rule: list_all2_induct)
  case Nil
  then show ?case by simp
next
  case (Cons c cs x xs)
  then show ?case by (cases ys) auto
qed

lemma denotes_unique: "denotes \<sigma> a s \<Longrightarrow> denotes \<sigma> a s' \<Longrightarrow> s = s'"
proof (induction arbitrary: s' rule: denotes.induct)
  case (leaf a \<sigma> tg ats tr)
  from leaf(3) leaf(1,2) show ?case by cases simp_all
next
  case (node a \<sigma> tg cs ats tr ss)
  from node.prems node(1,2) obtain ss' where s': "s' = Shape tg (Some ss') ats tr"
    and l: "list_all2 (denotes \<sigma>) cs ss'"
    by cases simp_all
  from node.IH l have "ss = ss'" by (intro list_all2_unique [of "denotes \<sigma>" cs ss ss']) auto
  with s' show ?case by simp
qed


lemma children_mono:
  "rel_option (list_all2 (denotes \<sigma>)) oc cs \<Longrightarrow> prefix \<sigma> \<sigma>' \<Longrightarrow>
   rel_option (list_all2 (denotes \<sigma>')) oc cs"
  by (cases oc; cases cs) (auto elim!: list_all2_mono intro: denotes_mono)

lemma list_all2_denotes_mono:
  "list_all2 (denotes \<sigma>) as ss \<Longrightarrow> prefix \<sigma> \<sigma>' \<Longrightarrow> list_all2 (denotes \<sigma>') as ss"
  by (auto elim!: list_all2_mono intro: denotes_mono)

lemma apply_transform_h_eq:
  "apply_transform_h \<sigma> a t =
     (length \<sigma>,
      \<sigma> @ [Obj (o_tag (\<sigma> ! a)) (o_children (\<sigma> ! a)) (o_attrs (\<sigma> ! a))
               (Some (case o_transform (\<sigma> ! a) of Some t0 \<Rightarrow> t_or t0 t | None \<Rightarrow> t))])"
  by (simp add: apply_transform_h_def clone_h_def alloc_def set_transform_h_def Let_def)

lemma apply_transform_h_refines:
  assumes "denotes \<sigma> a s" "apply_transform_h \<sigma> a t = (b, \<sigma>')"
  shows "prefix \<sigma> \<sigma>' \<and> b = length \<sigma> \<and> denotes \<sigma>' b (apply_transform s t)"
proof -
  from assms(2) have b: "b = length \<sigma>"
    and s': "\<sigma>' = \<sigma> @ [Obj (o_tag (\<sigma> ! a)) (o_children (\<sigma> ! a)) (o_attrs (\<sigma> ! a))
               (Some (case o_transform (\<sigma> ! a) of Some t0 \<Rightarrow> t_or t0 t | None \<Rightarrow> t))]"
    by (simp_all add: apply_transform_h_eq)
  have p: "prefix \<sigma> \<sigma>'" by (simp add: s')
  from assms(1) have f: "a < length \<sigma>" "o_tag (\<sigma> ! a) = tag s" "o_attrs (\<sigma> ! a) = attrs s"
    "o_transform (\<sigma> ! a) = transform s"
    "rel_option (list_all2 (denotes \<sigma>)) (o_children (\<sigma> ! a)) (children s)"
    by (simp_all add: denotes_iff [of \<sigma> a s])
  from children_mono [OF f(5) p]
  have "denotes \<sigma>' b (apply_transform s t)"
    by (subst denotes_iff) (simp add: b s' f apply_transform_def clone_def set_transform_def Let_def)
  with p b show ?thesis by simp
qed

lemma Group_h_refines:
  assumes "list_all2 (denotes \<sigma>) as ss" "Group_h \<sigma> as = (b, \<sigma>')"
  shows "prefix \<sigma> \<sigma>' \<and> b = length \<sigma> \<and> denotes \<sigma>' b (Group_of ss)"
proof -
  from assms(2) have b: "b = length \<sigma>" and s': "\<sigma>' = \<sigma> @ [Obj ''g'' (Some as) [] None]"
    by (simp_all add: Group_h_def alloc_def)
  have p: "prefix \<sigma> \<sigma>'" by (simp add: s')
  from list_all2_denotes_mono [OF assms(1) p]
  have "denotes \<sigma>' b (Group_of ss)"
    by (subst denotes_iff) (simp add: b s' Group_of_def Shape_init_def)
  with p b show ?thesis by simp
qed

lemma comprehension_same:
  assumes "denotes \<sigma> a s"
    and "comprehension_h (\<lambda>i \<sigma>. apply_transform_h \<sigma> a (tr i)) is \<sigma> = (bs, \<sigma>')"
  shows "prefix \<sigma> \<sigma>' \<and> list_all2 (denotes \<sigma>') bs (map (\<lambda>i. apply_transform s (tr i)) is)"
  using assms
proof (induction "is" arbitrary: \<sigma> bs \<sigma>')
  case Nil
  then show ?case by simp
next
  case (Cons i "is")
  obtain b1 \<sigma>1 where one: "apply_transform_h \<sigma> a (tr i) = (b1, \<sigma>1)" by force
  obtain bs' \<sigma>2 where rest: "comprehension_h (\<lambda>i \<sigma>. apply_transform_h \<sigma> a (tr i)) is \<sigma>1 = (bs', \<sigma>2)"
    by force
  from Cons.prems(2) one rest have eq: "bs = b1 # bs'" "\<sigma>' = \<sigma>2" by simp_all
  from apply_transform_h_refines [OF Cons.prems(1) one]
  have p1: "prefix \<sigma> \<sigma>1" and d1: "denotes \<sigma>1 b1 (apply_transform s (tr i))" by blast+
  from Cons.IH [OF denotes_mono [OF Cons.prems(1) p1] rest]
  have p2: "prefix \<sigma>1 \<sigma>2" and d2: "list_all2 (denotes \<sigma>2) bs' (map (\<lambda>i. apply_transform s (tr i)) is)"
    by simp_all
  from p1 p2 have "prefix \<sigma> \<sigma>2" by (rule prefix_order.trans)
  with denotes_mono [OF d1 p2] d2 eq show ?case by simp
qed

lemma comprehension_enumerate:
  assumes "list_all2 (denotes \<sigma>) as ss"
    and "comprehension_h (\<lambda>(i, a) \<sigma>. apply_transform_h \<sigma> a (tr i)) (enumerate k as) \<sigma> = (bs, \<sigma>')"
  shows "prefix \<sigma> \<sigma>' \<and>
    list_all2 (denotes \<sigma>') bs (map (\<lambda>(i, s). apply_transform s (tr i)) (enumerate k ss))"
  using assms
proof (induction as arbitrary: ss \<sigma> bs \<sigma>' k)
  case Nil
  then show ?case by simp
next
  case (Cons a as)
  from Cons.prems(1) obtain s ss' where ss: "ss = s # ss'"
    and a: "denotes \<sigma> a s" and as: "list_all2 (denotes \<sigma>) as ss'"
    by (cases ss) auto
  obtain b1 \<sigma>1 where one: "apply_transform_h \<sigma> a (tr k) = (b1, \<sigma>1)" by force
  obtain bs' \<sigma>2 where rest:
    "comprehension_h (\<lambda>(i, a) \<sigma>. apply_transform_h \<sigma> a (tr i)) (enumerate (Suc k) as) \<sigma>1 = (bs', \<sigma>2)"
    by force
  from Cons.prems(2) one rest have eq: "bs = b1 # bs'" "\<sigma>' = \<sigma>2" by simp_all
  from apply_transform_h_refines [OF a one]
  have p1: "prefix \<sigma> \<sigma>1" and d1: "denotes \<sigma>1 b1 (apply_transform s (tr k))" by blast+
  from Cons.IH [OF list_all2_denotes_mono [OF as p1] rest]
  have p2: "prefix \<sigma>1 \<sigma>2"
    and d2: "list_all2 (denotes \<sigma>2) bs' (map (\<lambda>(i, s). apply_transform s (tr i)) (enumerate (Suc k) ss'))"
    by simp_all
  from p1 p2 have "prefix \<sigma> \<sigma>2" by (rule prefix_order.trans)
  with denotes_mono [OF d1 p2] d2 eq ss show ?case by simp
qed

lemma repeat_loop_h_refines:
  assumes f: "\<And>\<sigma> a s b \<sigma>'. denotes \<sigma> a s \<Longrightarrow> f \<sigma> a = (b, \<sigma>') \<Longrightarrow> prefix \<sigma> \<sigma>' \<and> denotes \<sigma>' b (g s)"
    and "denotes \<sigma> a s" "list_all2 (denotes \<sigma>) acc ss" "repeat_loop_h f k \<sigma> a acc = (acc', \<sigma>')"
  shows "prefix \<sigma> \<sigma>' \<and> list_all2 (denotes \<sigma>') acc' (repeat_loop g k s ss)"
  using assms(2-)
proof (induction k arbitrary: \<sigma> a s acc ss)
  case 0
  then show ?case by simp
next
  case (Suc k)
  obtain b1 \<sigma>1 where one: "f \<sigma> a = (b1, \<sigma>1)" by force
  from f [OF Suc.prems(1) one] have p1: "prefix \<sigma> \<sigma>1" and d1: "denotes \<sigma>1 b1 (g s)" by simp_all
  from list_all2_denotes_mono [OF Suc.prems(2) p1] d1
  have acc1: "list_all2 (denotes \<sigma>1) (acc @ [b1]) (ss @ [g s])"
    by (simp add: list_all2_appendI)
  from Suc.prems(3) one have "repeat_loop_h f k \<sigma>1 b1 (acc @ [b1]) = (acc', \<sigma>')" by simp
  from Suc.IH [OF d1 acc1 this]
  have "prefix \<sigma>1 \<sigma>'" and r: "list_all2 (denotes \<sigma>') acc' (repeat_loop g k (g s) (ss @ [g s]))"
    by simp_all
  with p1 have "prefix \<sigma> \<sigma>'" by (auto intro: prefix_order.trans)
  with r show ?case by (simp add: Let_def)
qed

lemma t_apply_h_refines:
  "denotes \<sigma> a s \<Longrightarrow> t_apply_h t \<sigma> a = (b, \<sigma>') \<Longrightarrow>
   prefix \<sigma> \<sigma>' \<and> length \<sigma> \<le> b \<and> denotes \<sigma>' b (t_apply t s)"
proof (induction t arbitrary: \<sigma> a s b \<sigma>')
  case (Translate x y)
  with apply_transform_h_refines [of \<sigma> a s "Translate x y" b \<sigma>'] show ?case
    by (auto simp add: Transformation_apply_def)
next
  case (Rotate x y)
  with apply_transform_h_refines [of \<sigma> a s "Rotate x y" b \<sigma>'] show ?case
    by (auto simp add: Transformation_apply_def)
next
  case (Scale x y)
  with apply_transform_h_refines [of \<sigma> a s "Scale x y" b \<sigma>'] show ?case
    by (auto simp add: Transformation_apply_def)
next
  case (TransformationList ts)
  with apply_transform_h_refines [of \<sigma> a s "TransformationList ts" b \<sigma>'] show ?case
    by (auto simp add: Transformation_apply_def)
next
  case (Repeat n t)
  obtain shapes \<sigma>1 where loop: "repeat_loop_h (t_apply_h t) (nat (n - 1)) \<sigma> a [a] = (shapes, \<sigma>1)"
    by force
  with Repeat.prems(2) have g: "Group_h \<sigma>1 shapes = (b, \<sigma>')" by simp
  have "prefix \<sigma> \<sigma>1 \<and> list_all2 (denotes \<sigma>1) shapes (repeat_loop (t_apply t) (nat (n - 1)) s [s])"
  proof (rule repeat_loop_h_refines [OF _ Repeat.prems(1) _ loop])
    show "prefix \<sigma> \<sigma>' \<and> denotes \<sigma>' b (t_apply t s)"
      if "denotes \<sigma> a s" "t_apply_h t \<sigma> a = (b, \<sigma>')" for \<sigma> a s b \<sigma>'
      using Repeat.IH [OF that] by simp
    show "list_all2 (denotes \<sigma>) [a] [s]" using Repeat.prems(1) by simp
  qed
  then have p1: "prefix \<sigma> \<sigma>1"
    and l: "list_all2 (denotes \<sigma>1) shapes (repeat_loop (t_apply t) (nat (n - 1)) s [s])" by simp_all
  from Group_h_refines [OF l g] p1 prefix_length_le [OF p1] show ?case
    by (auto intro: prefix_order.trans)
next
  case (Cycle n angle anchor sc)
  let ?rot = "\<lambda>i. Rotate_init (num_mul (PInt (int i)) angle) (Some anchor)"
  obtain shapes1 \<sigma>1 where c1:
    "comprehension_h (\<lambda>i \<sigma>. apply_transform_h \<sigma> a (?rot i)) [0 ..< nat n] \<sigma> = (shapes1, \<sigma>1)"
    by force
  from comprehension_same [OF Cycle.prems(1) c1]
  have p1: "prefix \<sigma> \<sigma>1"
    and l1: "list_all2 (denotes \<sigma>1) shapes1 (cycle_rotations n angle anchor s)"
    by (simp_all add: cycle_rotations_def Transformation_apply_def)
  show ?case
  proof (cases sc)
    case None
    with Cycle.prems(2) c1 have g: "Group_h \<sigma>1 shapes1 = (b, \<sigma>')" by simp
    from Group_h_refines [OF l1 g] p1 prefix_length_le [OF p1] None show ?thesis
      by (auto intro: prefix_order.trans)
  next
    case (Some x)
    let ?sca = "\<lambda>i. Scale_init (num_pow x i) None"
    obtain shapes2 \<sigma>2 where c2:
      "comprehension_h (\<lambda>(i, shape') \<sigma>. apply_transform_h \<sigma> shape' (?sca i)) (enumerate 0 shapes1) \<sigma>1
         = (shapes2, \<sigma>2)"
      by force
    with Cycle.prems(2) c1 Some have g: "Group_h \<sigma>2 shapes2 = (b, \<sigma>')" by simp
    from comprehension_enumerate [OF l1 c2]
    have p2: "prefix \<sigma>1 \<sigma>2"
      and l2: "list_all2 (denotes \<sigma>2) shapes2 (cycle_scales x (cycle_rotations n angle anchor s))"
      by (simp_all add: cycle_scales_def Transformation_apply_def)
    from p1 p2 have p: "prefix \<sigma> \<sigma>2" by (rule prefix_order.trans)
    from Group_h_refines [OF l2 g] p prefix_length_le [OF p] Some show ?thesis
      by (auto intro: prefix_order.trans)
  qed
qed


lemma join_neq: "join t0 t \<noteq> t0"
  by (cases t0) simp_all

lemma apply_transform_neq: "transform (apply_transform s t) \<noteq> transform s"
  by (cases "transform s")
     (simp_all add: apply_transform_def clone_def set_transform_def t_or_def Let_def join_neq)

lemma apply_transform_children: "children (apply_transform s t) = children s"
  by (simp add: apply_transform_def clone_def set_transform_def Let_def)

lemma not_own_child: "children c = Some cs \<Longrightarrow> c \<notin> set cs"
proof
  assume c: "children c = Some cs" and m: "c \<in> set cs"
  from m have "size c \<le> size_list size cs" by (rule size_list_estimation') simp
  moreover from c have "size_list size cs < size c" by (cases c) simp
  ultimately show False by simp
qed

lemma repeat_first: "repeat_loop f k x [x] = x # map (\<lambda>j. (f ^^ Suc j) x) [0 ..< k]"
  by (simp add: repeat_loop_eq)

lemma cycle_children_same:
  "c \<in> set (cycle_rotations n angle anchor s) \<Longrightarrow> children c = children s"
  by (auto simp add: cycle_rotations_def Transformation_apply_def apply_transform_children)

lemma cycle_scales_children_same:
  assumes "\<And>c. c \<in> set L \<Longrightarrow> children c = children s" "c \<in> set (cycle_scales sc L)"
  shows "children c = children s"
proof -
  from assms(2) obtain a where "a < length L"
    "c = apply_transform (L ! a) (Scale_init (num_pow sc a) None)"
    by (auto simp add: cycle_scales_def Transformation_apply_def in_set_enumerate_eq)
  with assms(1) [of "L ! a"] show ?thesis by (simp add: apply_transform_children)
qed

lemma pipe_same_iff: "(pipe s t = s) = (degenerate_cycle t \<and> s = Group_of [])"
proof (cases t)
  case (Repeat n t')
  have "pipe s t \<noteq> s"
  proof
    assume "pipe s t = s"
    with Repeat have "children s = Some (repeat_loop (t_apply t') (nat (n - 1)) s [s])"
      by (simp add: pipe_def Group_of_def Shape_init_def) (metis shape.sel(2))
    from not_own_child [OF this] show False by (simp add: repeat_first)
  qed
  with Repeat show ?thesis by (simp add: degenerate_cycle_def)
next
  case (Cycle n angle anchor sc)
  define L where "L = (let shapes = cycle_rotations n angle anchor s
                       in case sc of Some x \<Rightarrow> cycle_scales x shapes | None \<Rightarrow> shapes)"
  have p: "pipe s t = Group_of L" by (simp add: pipe_def Cycle L_def Let_def)
  show ?thesis
  proof (cases "n \<le> 0")
    case True
    then have "L = []"
      by (simp add: L_def Let_def cycle_rotations_def cycle_scales_def split: option.splits)
    with p True Cycle show ?thesis by (auto simp add: degenerate_cycle_def)
  next
    case False
    have same: "children c = children s" if "c \<in> set L" for c
      using that cycle_children_same [of c n angle anchor s]
        cycle_scales_children_same [of "cycle_rotations n angle anchor s" s c]
      by (auto simp add: L_def Let_def cycle_children_same split: option.splits)
    from False have "length L = nat n" "0 < nat n"
      by (simp_all add: L_def Let_def cycle_rotations_def cycle_scales_def split: option.splits)
    then obtain c where c: "c \<in> set L" by (cases L) auto
    have "pipe s t \<noteq> s"
    proof
      assume "pipe s t = s"
      with p have "children s = Some L" by (simp add: Group_of_def Shape_init_def)
      with same [OF c] have "children c = Some L" by simp
      from not_own_child [OF this] c show False by simp
    qed
    with False Cycle show ?thesis by (simp add: degenerate_cycle_def)
  qed
qed (insert apply_transform_neq [of s t],
     auto simp add: pipe_def Transformation_apply_def degenerate_cycle_def)


lemma denotes_valid: "denotes \<sigma> a s \<Longrightarrow> a < length \<sigma>"
  by (simp add: denotes_iff [of \<sigma> a s])

text \<open>
  C2, as stated, fails on the code in one case: a \<open>Cycle\<close> with \<open>n \<le> 0\<close> (and an
  explicit angle) applied to an empty group gives a new object whose content is the same
  as the group's: tag \<open>g\<close>, no children, no attributes, no transform.
\<close>

theorem application_counterexample:
  "pipe (Group_of []) (Cycle 0 (PInt 10) origin None) = Group_of []
   \<and> t_apply_h (Cycle 0 (PInt 10) origin None) [Obj ''g'' (Some []) [] None] 0
       = (1, [Obj ''g'' (Some []) [] None, Obj ''g'' (Some []) [] None])"
  by code_simp

text \<open>
  C2, amended: for every shape \<open>s\<close> and transformation \<open>t\<close>, applying \<open>t\<close> to \<open>s\<close> to
  obtain \<open>s2\<close> leaves \<open>s\<close> unchanged: every object that existed before is the same
  after, \<open>s\<close> stands for the same value and renders to the same text before and after,
  and \<open>s2\<close> is a new object holding the applied value rather than a mutation of \<open>s\<close>.
  Its content differs from that of \<open>s\<close>, except when \<open>t\<close> is a \<open>Cycle\<close> with
  \<open>n \<le> 0\<close> and \<open>s\<close> an empty group with no attributes and no transform; for a
  \<open>Translate\<close>, \<open>Rotate\<close>, \<open>Scale\<close> or list it is \<open>s\<close> with another transform.
\<close>

theorem application_leaves_shape_unchanged:
  "denotes \<sigma> a s \<Longrightarrow> t_apply_h t \<sigma> a = (b, \<sigma>') \<Longrightarrow>
     prefix \<sigma> \<sigma>'
   \<and> (\<forall>s'. denotes \<sigma>' a s' = (s' = s))
   \<and> rendering fr \<sigma>' a = rendering fr \<sigma> a
   \<and> rendering fr \<sigma> a = {svg fr s []}
   \<and> b \<noteq> a \<and> length \<sigma> \<le> b
   \<and> denotes \<sigma>' b (pipe s t)
   \<and> (pipe s t = s) = (degenerate_cycle t \<and> s = Group_of [])
   \<and> (\<not> higher_order t \<longrightarrow>
        tag (pipe s t) = tag s \<and> children (pipe s t) = children s \<and> attrs (pipe s t) = attrs s
        \<and> transform (pipe s t) \<noteq> transform s)"
proof -
  assume d: "denotes \<sigma> a s" and e: "t_apply_h t \<sigma> a = (b, \<sigma>')"
  from t_apply_h_refines [OF d e]
  have p: "prefix \<sigma> \<sigma>'" and b: "length \<sigma> \<le> b" and n: "denotes \<sigma>' b (pipe s t)"
    by (simp_all add: pipe_def)
  from denotes_valid [OF d] b have ba: "b \<noteq> a" by simp
  have u: "denotes \<sigma> a s' = (s' = s)" for s'
    using d denotes_unique [OF d, of s'] by auto
  have u': "denotes \<sigma>' a s' = (s' = s)" for s'
    using denotes_mono [OF d p] denotes_unique [OF denotes_mono [OF d p], of s'] by auto
  have r: "rendering fr \<sigma> a = {svg fr s []}" "rendering fr \<sigma>' a = {svg fr s []}"
    by (simp_all add: rendering_def u u')
  have basic: "tag (pipe s t) = tag s \<and> children (pipe s t) = children s \<and> attrs (pipe s t) = attrs s
        \<and> transform (pipe s t) \<noteq> transform s" if "\<not> higher_order t"
    using that apply_transform_neq [of s t] by (simp add: pipe_basic apply_transform_fields)
  from p u' r ba b n basic show ?thesis
    by (simp add: pipe_same_iff)
qed

theorem application_leaves_shape_unchanged_witness:
  "denotes [Obj ''circle'' None [(''cx'', PNum (PInt 0)), (''cy'', PNum (PInt 0)), (''r'', PNum (PInt 100))] None]
     0 Circle_default
   \<and> t_apply_h (Repeat 2 (Translate (PInt 10) (PInt 0)))
       [Obj ''circle'' None [(''cx'', PNum (PInt 0)), (''cy'', PNum (PInt 0)), (''r'', PNum (PInt 100))] None] 0
     = (2, [Obj ''circle'' None [(''cx'', PNum (PInt 0)), (''cy'', PNum (PInt 0)), (''r'', PNum (PInt 100))] None,
            Obj ''circle'' None [(''cx'', PNum (PInt 0)), (''cy'', PNum (PInt 0)), (''r'', PNum (PInt 100))]
              (Some (Translate (PInt 10) (PInt 0))),
            Obj ''g'' (Some [0, 1]) [] None])
   \<and> denotes [Obj ''circle'' None [(''cx'', PNum (PInt 0)), (''cy'', PNum (PInt 0)), (''r'', PNum (PInt 100))] None,
            Obj ''circle'' None [(''cx'', PNum (PInt 0)), (''cy'', PNum (PInt 0)), (''r'', PNum (PInt 100))]
              (Some (Translate (PInt 10) (PInt 0))),
            Obj ''g'' (Some [0, 1]) [] None] 0 Circle_default
   \<and> denotes [Obj ''circle'' None [(''cx'', PNum (PInt 0)), (''cy'', PNum (PInt 0)), (''r'', PNum (PInt 100))] None,
            Obj ''circle'' None [(''cx'', PNum (PInt 0)), (''cy'', PNum (PInt 0)), (''r'', PNum (PInt 100))]
              (Some (Translate (PInt 10) (PInt 0))),
            Obj ''g'' (Some [0, 1]) [] None] 2
        (pipe Circle_default (Repeat 2 (Translate (PInt 10) (PInt 0))))
   \<and> pipe Circle_default (Repeat 2 (Translate (PInt 10) (PInt 0))) \<noteq> Circle_default"
proof -
  let ?c = "Obj ''circle'' None [(''cx'', PNum (PInt 0)), (''cy'', PNum (PInt 0)), (''r'', PNum (PInt 100))] None"
  let ?c' = "Obj ''circle'' None [(''cx'', PNum (PInt 0)), (''cy'', PNum (PInt 0)), (''r'', PNum (PInt 100))]
              (Some (Translate (PInt 10) (PInt 0)))"
  let ?t = "Repeat 2 (Translate (PInt 10) (PInt 0))"
  have d: "denotes [?c] 0 Circle_default"
    unfolding Circle_default_def Circle_of_def Shape_init_def by (rule denotes.leaf) simp_all
  have e: "t_apply_h ?t [?c] 0 = (2, [?c, ?c', Obj ''g'' (Some [0, 1]) [] None])"
    by code_simp
  have g: "\<not> degenerate_cycle ?t" by (simp add: degenerate_cycle_def)
  from application_leaves_shape_unchanged [OF d e, of repr_integral] g
  have "denotes [?c, ?c', Obj ''g'' (Some [0, 1]) [] None] 0 Circle_default"
    and "denotes [?c, ?c', Obj ''g'' (Some [0, 1]) [] None] 2 (pipe Circle_default ?t)"
    and "pipe Circle_default ?t \<noteq> Circle_default"
    by blast+
  with d e show ?thesis by blast
qed

end
